theory Spec2Isabelle
  imports Main "HOL-Library.Sublist"
begin

section \<open>Go strings and the standard-library functions the program calls\<close>

text \<open>
  A Go \<^verbatim>\<open>string\<close> is a sequence of bytes, so it is modelled as \<^typ>\<open>string\<close>
  (a list of 8-bit characters); a code point outside ASCII is the list of its UTF-8 bytes.
\<close>

subsection \<open>\<^verbatim>\<open>strings.HasPrefix\<close> and \<^verbatim>\<open>strings.Contains\<close>\<close>

fun HasPrefix :: "string \<Rightarrow> string \<Rightarrow> bool" where
  "HasPrefix s [] = True"
| "HasPrefix [] (p # ps) = False"
| "HasPrefix (c # s) (p # ps) = (c = p \<and> HasPrefix s ps)"

text \<open>\<^verbatim>\<open>strings.Contains(s, substr)\<close>: some position of \<open>s\<close> starts with \<open>substr\<close>.\<close>

fun Contains :: "string \<Rightarrow> string \<Rightarrow> bool" where
  "Contains [] substr = (substr = [])"
| "Contains (c # s) substr = (HasPrefix (c # s) substr \<or> Contains s substr)"

subsection \<open>\<^verbatim>\<open>strings.TrimSpace\<close>\<close>

text \<open>
  \<^verbatim>\<open>strings.TrimSpace\<close> removes all leading and all trailing white space, as Unicode
  defines it (\<^verbatim>\<open>unicode.IsSpace\<close>): the six ASCII characters tab, line feed, vertical
  tab, form feed, carriage return and space, U+0085 and U+00A0 (two bytes each in UTF-8)
  and U+1680, U+2000 to U+200A, U+2028, U+2029, U+202F, U+205F and U+3000 (three bytes
  each).
\<close>

definition asciiSpace :: "char \<Rightarrow> bool" where
  "asciiSpace c = (c \<in> {CHR 0x09, CHR 0x0A, CHR 0x0B, CHR 0x0C, CHR 0x0D, CHR 0x20})"

definition space2 :: "string list" where
  "space2 = [[CHR 0xC2, CHR 0x85], [CHR 0xC2, CHR 0xA0]]"

definition space3 :: "string list" where
  "space3 =
    [[CHR 0xE1, CHR 0x9A, CHR 0x80],
     [CHR 0xE2, CHR 0x80, CHR 0x80], [CHR 0xE2, CHR 0x80, CHR 0x81],
     [CHR 0xE2, CHR 0x80, CHR 0x82], [CHR 0xE2, CHR 0x80, CHR 0x83],
     [CHR 0xE2, CHR 0x80, CHR 0x84], [CHR 0xE2, CHR 0x80, CHR 0x85],
     [CHR 0xE2, CHR 0x80, CHR 0x86], [CHR 0xE2, CHR 0x80, CHR 0x87],
     [CHR 0xE2, CHR 0x80, CHR 0x88], [CHR 0xE2, CHR 0x80, CHR 0x89],
     [CHR 0xE2, CHR 0x80, CHR 0x8A],
     [CHR 0xE2, CHR 0x80, CHR 0xA8], [CHR 0xE2, CHR 0x80, CHR 0xA9],
     [CHR 0xE2, CHR 0x80, CHR 0xAF],
     [CHR 0xE2, CHR 0x81, CHR 0x9F],
     [CHR 0xE3, CHR 0x80, CHR 0x80]]"

text \<open>The width in bytes of the white-space character a string starts with; 0 if it
  starts with none.\<close>

definition leadingSpace :: "string \<Rightarrow> nat" where
  "leadingSpace s =
    (if s \<noteq> [] \<and> asciiSpace (hd s) then 1
     else if take 2 s \<in> set space2 then 2
     else if take 3 s \<in> set space3 then 3
     else 0)"

text \<open>The width in bytes of the white-space character a string ends with; 0 if it
  ends with none.\<close>

definition trailingSpace :: "string \<Rightarrow> nat" where
  "trailingSpace s =
    (if s \<noteq> [] \<and> asciiSpace (last s) then 1
     else if 2 \<le> length s \<and> drop (length s - 2) s \<in> set space2 then 2
     else if 3 \<le> length s \<and> drop (length s - 3) s \<in> set space3 then 3
     else 0)"

lemma leadingSpace_le: "leadingSpace s \<le> length s"
proof -
  have "take 2 s \<in> set space2 \<Longrightarrow> 2 \<le> length s"
    by (cases s; cases "tl s") (auto simp: space2_def)
  moreover have "take 3 s \<in> set space3 \<Longrightarrow> 3 \<le> length s"
    by (cases s; cases "tl s"; cases "tl (tl s)") (auto simp: space3_def)
  ultimately show ?thesis
    by (cases s) (auto simp: leadingSpace_def)
qed

lemma trailingSpace_le: "trailingSpace s \<le> length s"
  by (cases s) (auto simp: trailingSpace_def)

function TrimLeft :: "string \<Rightarrow> string" where
  "TrimLeft s = (if leadingSpace s = 0 then s else TrimLeft (drop (leadingSpace s) s))"
  by pat_completeness auto
termination
proof (relation "measure length")
  fix s :: string
  assume "leadingSpace s \<noteq> 0"
  moreover have "leadingSpace s \<le> length s" by (rule leadingSpace_le)
  ultimately show "(drop (leadingSpace s) s, s) \<in> measure length" by simp
qed simp

function TrimRight :: "string \<Rightarrow> string" where
  "TrimRight s =
    (if trailingSpace s = 0 then s else TrimRight (take (length s - trailingSpace s) s))"
  by pat_completeness auto
termination
proof (relation "measure length")
  fix s :: string
  assume "trailingSpace s \<noteq> 0"
  moreover have "trailingSpace s \<le> length s" by (rule trailingSpace_le)
  ultimately show "(take (length s - trailingSpace s) s, s) \<in> measure length" by simp
qed simp

declare TrimLeft.simps [simp del] TrimRight.simps [simp del]

definition TrimSpace :: "string \<Rightarrow> string" where
  "TrimSpace s = TrimRight (TrimLeft s)"

section \<open>Content classifier\<close>

text \<open>
  \<^verbatim>\<open>
  func isHTML(text string) bool {
      return strings.Contains(text, "<html") || strings.Contains(text, "<p") ||
          strings.Contains(text, "<div") || strings.Contains(text, "<span")
  }
  \<close>
\<close>

definition isHTML :: "string \<Rightarrow> bool" where
  "isHTML text =
    (Contains text ''<html'' \<or> Contains text ''<p'' \<or>
     Contains text ''<div'' \<or> Contains text ''<span'')"

section \<open>Plain-text reassembly\<close>

text \<open>
  \<^verbatim>\<open>
  func reconstructPlainText(translatedSentences []string) string {
      var sb strings.Builder
      for _, sentence := range translatedSentences {
          sb.WriteString(sentence)
          sb.WriteString(" ") // Add a space between sentences
      }
      return strings.TrimSpace(sb.String()) // Trim any trailing space
  }
  \<close>
  The builder is the accumulator \<open>sb\<close> of the loop.
\<close>

fun reconstructPlainText_loop :: "string \<Rightarrow> string list \<Rightarrow> string" where
  "reconstructPlainText_loop sb [] = sb"
| "reconstructPlainText_loop sb (sentence # rest) =
     reconstructPlainText_loop (sb @ sentence @ '' '') rest"

definition reconstructPlainText :: "string list \<Rightarrow> string" where
  "reconstructPlainText translatedSentences =
     TrimSpace (reconstructPlainText_loop [] translatedSentences)"

text \<open>The spec's words for the same operation: the sentences joined with a single space
  (\<^verbatim>\<open>strings.Join(sentences, " ")\<close>).\<close>

fun joinWithSpace :: "string list \<Rightarrow> string" where
  "joinWithSpace [] = []"
| "joinWithSpace [s] = s"
| "joinWithSpace (s # t # rest) = s @ '' '' @ joinWithSpace (t # rest)"


section \<open>Errors and panics\<close>

text \<open>
  A Go \<^verbatim>\<open>error\<close> value: \<^verbatim>\<open>io.EOF\<close>, an error with a fixed message
  (\<^verbatim>\<open>fmt.Errorf(msg)\<close>, or whatever error a collaborator returns), or an error that
  wraps another one (\<^verbatim>\<open>fmt.Errorf(prefix + ": %w", err)\<close>).
\<close>

datatype error = EOF | Errorf string | Wrapf string error

text \<open>A run-time panic: an index out of range (index, length), a nil pointer
  dereference, or a failed type assertion on the map entry of the given key.\<close>

datatype panic =
  IndexOutOfRange nat nat | NilPointerDereference | InterfaceConversion string

text \<open>A call either panics or returns its results.\<close>

datatype 'a outcome = Panics panic | Returns 'a

section \<open>Markup tokens\<close>

text \<open>
  \<^verbatim>\<open>html.TokenType\<close> and \<^verbatim>\<open>html.Token\<close> of \<^verbatim>\<open>golang.org/x/net/html\<close>.
\<close>

datatype TokenType =
  ErrorToken | TextToken | StartTagToken | EndTagToken | SelfClosingTagToken |
  CommentToken | DoctypeToken

record Attribute =
  Namespace :: string
  Key :: string
  Val :: string

record Token =
  Type :: TokenType
  DataAtom :: nat
  Data :: string
  Attr :: "Attribute list"

text \<open>
  The tokenizer is a collaborator of the program. One \<open>scan\<close> is one iteration of the
  loop of \<^verbatim>\<open>getTextFromHTML\<close> as the tokenizer answers it: the token type returned by
  \<^verbatim>\<open>tokenizer.Next()\<close>, and what \<^verbatim>\<open>tokenizer.Err()\<close>, \<^verbatim>\<open>tokenizer.Text()\<close> and
  \<^verbatim>\<open>tokenizer.Token()\<close> return when the loop body asks for them. A tokenizer over an
  input is the list of its scans.
\<close>

record scan =
  z_Next :: TokenType
  z_Err :: error
  z_Text :: string
  z_Token :: Token

section \<open>Sentence segmentation\<close>

text \<open>
  \<^verbatim>\<open>
  func splitSentences(input string) []string {
      segmenter := sentencizer.NewSegmenter("en")
      return segmenter.Segment(input)
  }
  \<close>
  The segmenter library is a parameter: \<open>Segment lang input\<close> stands for
  \<^verbatim>\<open>sentencizer.NewSegmenter(lang).Segment(input)\<close>.
\<close>

definition splitSentences :: "(string \<Rightarrow> string \<Rightarrow> string list) \<Rightarrow> string \<Rightarrow> string list" where
  "splitSentences Segment input = Segment ''en'' input"

section \<open>Markup tokenizer and reconstructor\<close>

text \<open>
  \<^verbatim>\<open>
  func replaceNonUTF8Characters(text string) string {
      return strings.ToValidUTF8(text, "")
  }
  \<close>
\<close>

definition replaceNonUTF8Characters :: "(string \<Rightarrow> string \<Rightarrow> string) \<Rightarrow> string \<Rightarrow> string" where
  "replaceNonUTF8Characters ToValidUTF8 text = ToValidUTF8 text []"

text \<open>
  \<^verbatim>\<open>
  func getTextFromHTML(input string) ([]html.Token, []string, []int, error) {
      input = replaceNonUTF8Characters(input)
      var tokens []html.Token
      var texts []string
      var counts []int
      tokenizer := html.NewTokenizer(strings.NewReader(input))
      for {
          tt := tokenizer.Next()
          switch tt {
          case html.ErrorToken:
              if tokenizer.Err() == io.EOF {
                  return tokens, texts, counts, nil
              }
              return nil, nil, nil, tokenizer.Err()
          case html.TextToken:
              text := strings.TrimSpace(string(tokenizer.Text()))
              if text != "" {
                  sentences := splitSentences(text)
                  texts = append(texts, sentences...)
                  counts = append(counts, len(sentences))
              }
          }
          tokens = append(tokens, tokenizer.Token())
      }
  }
  \<close>
  The loop returns only when the tokenizer reports an \<open>ErrorToken\<close>; on a list of scans
  without one the result is \<open>None\<close>: the function has not returned.
\<close>

fun getTextFromHTML_loop ::
  "(string \<Rightarrow> string \<Rightarrow> string list) \<Rightarrow> scan list \<Rightarrow> Token list \<Rightarrow> string list \<Rightarrow> int list \<Rightarrow>
   (error + Token list \<times> string list \<times> int list) option" where
  "getTextFromHTML_loop Segment [] tokens texts counts = None"
| "getTextFromHTML_loop Segment (z # zs) tokens texts counts =
    (case z_Next z of
       ErrorToken \<Rightarrow>
         if z_Err z = EOF then Some (Inr (tokens, texts, counts)) else Some (Inl (z_Err z))
     | TextToken \<Rightarrow>
         (let text = TrimSpace (z_Text z) in
          if text \<noteq> [] then
            (let sentences = splitSentences Segment text in
             getTextFromHTML_loop Segment zs (tokens @ [z_Token z]) (texts @ sentences)
               (counts @ [int (length sentences)]))
          else getTextFromHTML_loop Segment zs (tokens @ [z_Token z]) texts counts)
     | _ \<Rightarrow> getTextFromHTML_loop Segment zs (tokens @ [z_Token z]) texts counts)"

definition getTextFromHTML ::
  "(string \<Rightarrow> string \<Rightarrow> string) \<Rightarrow> (string \<Rightarrow> scan list) \<Rightarrow> (string \<Rightarrow> string \<Rightarrow> string list) \<Rightarrow>
   string \<Rightarrow> (error + Token list \<times> string list \<times> int list) option" where
  "getTextFromHTML ToValidUTF8 NewTokenizer Segment input =
     getTextFromHTML_loop Segment
       (NewTokenizer (replaceNonUTF8Characters ToValidUTF8 input)) [] [] []"

text \<open>
  \<^verbatim>\<open>
  func reconstructHTML(tokens []html.Token, translatedSentences []string, sentenceCounts []int) string {
      var sb strings.Builder
      textIndex := 0
      sentenceIndex := 0
      for _, token := range tokens {
          switch token.Type {
          case html.TextToken:
              count := sentenceCounts[sentenceIndex]
              for range count {
                  if textIndex < len(translatedSentences) {
                      sb.WriteString(translatedSentences[textIndex])
                      textIndex++
                  }
              }
              sentenceIndex++
          default:
              sb.WriteString(token.String())
          }
      }
      return sb.String()
  }
  \<close>
  \<open>writeSentences\<close> is the inner loop \<^verbatim>\<open>for range count\<close>, which runs \<open>count\<close> times
  and not at all when \<open>count\<close> is not positive. The read \<^verbatim>\<open>sentenceCounts[sentenceIndex]\<close>
  panics when the index is not below the length. \<open>String\<close> stands for the library's
  \<^verbatim>\<open>Token.String\<close>.
\<close>

fun writeSentences :: "nat \<Rightarrow> string list \<Rightarrow> string \<Rightarrow> nat \<Rightarrow> string \<times> nat" where
  "writeSentences 0 translatedSentences sb textIndex = (sb, textIndex)"
| "writeSentences (Suc n) translatedSentences sb textIndex =
    (if textIndex < length translatedSentences
     then writeSentences n translatedSentences (sb @ translatedSentences ! textIndex)
            (Suc textIndex)
     else writeSentences n translatedSentences sb textIndex)"

fun reconstructHTML_loop ::
  "(Token \<Rightarrow> string) \<Rightarrow> Token list \<Rightarrow> string list \<Rightarrow> int list \<Rightarrow> string \<Rightarrow> nat \<Rightarrow> nat \<Rightarrow>
   string outcome" where
  "reconstructHTML_loop String [] translatedSentences sentenceCounts sb textIndex
     sentenceIndex = Returns sb"
| "reconstructHTML_loop String (token # rest) translatedSentences sentenceCounts sb textIndex
     sentenceIndex =
    (if Type token = TextToken then
       (if sentenceIndex < length sentenceCounts then
          (let count = sentenceCounts ! sentenceIndex;
               (sb', textIndex') = writeSentences (nat count) translatedSentences sb textIndex
           in reconstructHTML_loop String rest translatedSentences sentenceCounts sb'
                textIndex' (Suc sentenceIndex))
        else Panics (IndexOutOfRange sentenceIndex (length sentenceCounts)))
     else reconstructHTML_loop String rest translatedSentences sentenceCounts
            (sb @ String token) textIndex sentenceIndex)"

definition reconstructHTML ::
  "(Token \<Rightarrow> string) \<Rightarrow> Token list \<Rightarrow> string list \<Rightarrow> int list \<Rightarrow> string outcome" where
  "reconstructHTML String tokens translatedSentences sentenceCounts =
     reconstructHTML_loop String tokens translatedSentences sentenceCounts [] 0 0"


section \<open>Cache fingerprint\<close>

text \<open>
  \<^verbatim>\<open>sha256.Sum256\<close> returns a \<^verbatim>\<open>[32]byte\<close>: the type \<open>digest\<close> of the byte strings of
  length 32. The hash function itself is a parameter \<open>Sum256\<close> of the functions that
  use it.
\<close>

typedef digest = "{bs :: string. length bs = 32}"
  by (rule exI [of _ "replicate 32 (CHR 0x00)"]) simp

setup_lifting type_definition_digest

text \<open>
  \<^verbatim>\<open>hex.EncodeToString\<close>: two characters of \<^verbatim>\<open>0123456789abcdef\<close> for each byte
  \<open>v\<close>, the one at index \<^verbatim>\<open>v >> 4\<close> and the one at index \<^verbatim>\<open>v & 0x0f\<close>.
\<close>

definition hextable :: string where
  "hextable = ''0123456789abcdef''"

fun EncodeToString :: "string \<Rightarrow> string" where
  "EncodeToString [] = []"
| "EncodeToString (v # src) =
     hextable ! (of_char v div 16) # hextable ! (of_char v mod 16) # EncodeToString src"

text \<open>
  \<^verbatim>\<open>
  func getHashFromText(text string) string {
      hash := sha256.Sum256([]byte(text))
      return hex.EncodeToString(hash[:])
  }
  \<close>
\<close>

definition getHashFromText :: "(string \<Rightarrow> digest) \<Rightarrow> string \<Rightarrow> string" where
  "getHashFromText Sum256 text = EncodeToString (Rep_digest (Sum256 text))"

text \<open>
  The key that is hashed, \<^verbatim>\<open>fmt.Sprintf("%s-%s-%s", sourceLanguage, targetLanguage, text)\<close>,
  as \<^verbatim>\<open>shouldCacheBeUsed\<close> (its variable \<^verbatim>\<open>hashKey\<close>) and \<^verbatim>\<open>handle\<close> build it.
\<close>

definition hashKey :: "string \<Rightarrow> string \<Rightarrow> string \<Rightarrow> string" where
  "hashKey sourceLanguage targetLanguage text =
     sourceLanguage @ ''-'' @ targetLanguage @ ''-'' @ text"


section \<open>Requests, responses, cache items\<close>

text \<open>
  The structs of \<^verbatim>\<open>main.go\<close>. \<^verbatim>\<open>TranslateResponse\<close> also has a field
  \<^verbatim>\<open>TranslationConfidence float64\<close>, which the program never sets; it is left out.
  Of \<^verbatim>\<open>events.APIGatewayProxyResponse\<close> the program sets the status code and the body.
\<close>

record TranslateRequest =
  SourceLanguage :: string
  TargetLanguage :: string
  Text :: string

record TranslateResponse =
  TranslatedText :: string
  DetectedLanguage :: string

record CacheItem =
  Hash :: string
  TranslatedText :: string
  SourceText :: string
  SourceLanguage :: string
  TargetLanguage :: string

record APIGatewayProxyResponse =
  StatusCode :: int
  Body :: string

text \<open>\<^verbatim>\<open>err.Error()\<close>: the message of an error; \<open>Itoa\<close> prints an index in decimal, as
  the verb \<^verbatim>\<open>%d\<close> does.\<close>

fun Error :: "error \<Rightarrow> string" where
  "Error EOF = ''EOF''"
| "Error (Errorf msg) = msg"
| "Error (Wrapf msg e) = msg @ '': '' @ Error e"

function Itoa :: "nat \<Rightarrow> string" where
  "Itoa n = (if n < 10 then [char_of (48 + n)] else Itoa (n div 10) @ [char_of (48 + n mod 10)])"
  by pat_completeness auto
termination
  by (relation "measure id") auto

declare Itoa.simps [simp del]

text \<open>
  \<^verbatim>\<open>
  func validateRequest(request TranslateRequest) error {
      if request.SourceLanguage == "" {
          return fmt.Errorf("source_language is required")
      }
      if request.TargetLanguage == "" {
          return fmt.Errorf("target_language is required")
      }
      if request.Text == "" {
          return fmt.Errorf("text is required")
      }
      return nil
  }
  \<close>
\<close>

definition validateRequest :: "TranslateRequest \<Rightarrow> error option" where
  "validateRequest request =
    (if TranslateRequest.SourceLanguage request = [] then
       Some (Errorf ''source_language is required'')
     else if TranslateRequest.TargetLanguage request = [] then
       Some (Errorf ''target_language is required'')
     else if Text request = [] then Some (Errorf ''text is required'')
     else None)"

section \<open>Collaborators\<close>

text \<open>
  The cache store and the translation provider are interfaces of the program
  (\<^verbatim>\<open>DynamoDBClient\<close>, \<^verbatim>\<open>TranslateClient\<close>). A client is modelled by what its methods
  answer in a state \<open>'w\<close> of the outside world, which each call may change. The Boolean
  argument of a call made inside the error group says whether the group's context has
  been cancelled at the time of the call.

  \<^item> \<open>GetItem w cancelled table key\<close> returns an error or the item found, if any
    (\<^verbatim>\<open>response.Item\<close>, \<^verbatim>\<open>nil\<close> when there is none).
  \<^item> \<open>PutItem w cancelled table item\<close> returns an error or \<^verbatim>\<open>nil\<close>.
  \<^item> \<open>TranslateText w cancelled source target text\<close> returns an error or the pointer
    \<^verbatim>\<open>output.TranslatedText\<close>.
  \<^item> \<open>ListLanguages w\<close> returns an error or the slice \<^verbatim>\<open>out.Languages\<close>, which may be
    \<^verbatim>\<open>nil\<close>, of the pointers \<^verbatim>\<open>LanguageCode\<close>.
\<close>

datatype AttributeValue = AttributeValueMemberS string | AttributeValueMemberOther

type_synonym Item = "string \<Rightarrow> AttributeValue option"

record 'w DynamoDBClient =
  GetItem :: "'w \<Rightarrow> bool \<Rightarrow> string \<Rightarrow> Item \<Rightarrow> (error + Item option) \<times> 'w"
  PutItem :: "'w \<Rightarrow> bool \<Rightarrow> string \<Rightarrow> Item \<Rightarrow> error option \<times> 'w"

record 'w TranslateClient =
  TranslateText :: "'w \<Rightarrow> bool \<Rightarrow> string \<Rightarrow> string \<Rightarrow> string \<Rightarrow> (error + string option) \<times> 'w"
  ListLanguages :: "'w \<Rightarrow> (error + string option list option) \<times> 'w"

record 'w handler =
  dynamoClient :: "'w DynamoDBClient"
  translateClient :: "'w TranslateClient"

text \<open>
  The package-level variable \<^verbatim>\<open>translateTableName\<close> and the library functions the
  program calls: the hash, the segmenter, the tokenizer, \<^verbatim>\<open>strings.ToValidUTF8\<close>,
  \<^verbatim>\<open>Token.String\<close>, and the JSON decoder and encoder (an error, or the decoded request;
  an error, or the encoded text).
\<close>

record env =
  env_translateTableName :: string
  env_Sum256 :: "string \<Rightarrow> digest"
  env_Segment :: "string \<Rightarrow> string \<Rightarrow> string list"
  env_NewTokenizer :: "string \<Rightarrow> scan list"
  env_ToValidUTF8 :: "string \<Rightarrow> string \<Rightarrow> string"
  env_String :: "Token \<Rightarrow> string"
  env_Unmarshal :: "string \<Rightarrow> error + TranslateRequest"
  env_Encode :: "TranslateResponse \<Rightarrow> error + string"

section \<open>Cache lookup, translation, cache store, supported languages\<close>

definition zeroCacheItem :: CacheItem where
  "zeroCacheItem =
    \<lparr>Hash = [], TranslatedText = [], SourceText = [], SourceLanguage = [],
     TargetLanguage = []\<rparr>"

definition zeroTranslateResponse :: TranslateResponse where
  "zeroTranslateResponse =
    \<lparr>TranslateResponse.TranslatedText = [], DetectedLanguage = []\<rparr>"

text \<open>\<^verbatim>\<open>item[key].(*types.AttributeValueMemberS).Value\<close>: the type assertion panics when
  the key is missing or holds an attribute of another type.\<close>

definition memberS :: "Item \<Rightarrow> string \<Rightarrow> string outcome" where
  "memberS item key =
    (case item key of
       Some (AttributeValueMemberS v) \<Rightarrow> Returns v
     | _ \<Rightarrow> Panics (InterfaceConversion key))"

definition cacheItemOf :: "Item \<Rightarrow> CacheItem outcome" where
  "cacheItemOf item =
    (case memberS item ''hash'' of Panics p \<Rightarrow> Panics p | Returns h \<Rightarrow>
     case memberS item ''translated_text'' of Panics p \<Rightarrow> Panics p | Returns t \<Rightarrow>
     case memberS item ''source_text'' of Panics p \<Rightarrow> Panics p | Returns s \<Rightarrow>
     case memberS item ''source_language'' of Panics p \<Rightarrow> Panics p | Returns sl \<Rightarrow>
     case memberS item ''target_language'' of Panics p \<Rightarrow> Panics p | Returns tgl \<Rightarrow>
       Returns \<lparr>Hash = h, TranslatedText = t, SourceText = s, SourceLanguage = sl,
                TargetLanguage = tgl\<rparr>)"

text \<open>
  \<^verbatim>\<open>
  func shouldCacheBeUsed(ctx, dynamoClient, sourceLanguage, targetLanguage, text string) (CacheItem, bool, error) {
      hashKey := fmt.Sprintf("%s-%s-%s", sourceLanguage, targetLanguage, text)
      hash := getHashFromText(hashKey)
      useCache := false
      var cacheItem CacheItem
      response, err := dynamoClient.GetItem(ctx, &dynamodb.GetItemInput{
          TableName: aws.String(translateTableName),
          Key: map[string]types.AttributeValue{"hash": &types.AttributeValueMemberS{Value: hash}},
      })
      if err != nil {
          return cacheItem, useCache, err
      }
      if response.Item == nil {
          return cacheItem, useCache, nil
      }
      cacheItem = CacheItem{
          Hash:           response.Item["hash"].(*types.AttributeValueMemberS).Value,
          TranslatedText: response.Item["translated_text"].(*types.AttributeValueMemberS).Value,
          SourceText:     response.Item["source_text"].(*types.AttributeValueMemberS).Value,
          SourceLanguage: response.Item["source_language"].(*types.AttributeValueMemberS).Value,
          TargetLanguage: response.Item["target_language"].(*types.AttributeValueMemberS).Value,
      }
      return cacheItem, true, nil
  }
  \<close>
\<close>

definition shouldCacheBeUsed ::
  "env \<Rightarrow> 'w DynamoDBClient \<Rightarrow> 'w \<Rightarrow> bool \<Rightarrow> string \<Rightarrow> string \<Rightarrow> string \<Rightarrow>
   (CacheItem \<times> bool \<times> error option) outcome \<times> 'w" where
  "shouldCacheBeUsed env client w ctx sourceLanguage targetLanguage text =
    (let hash = getHashFromText (env_Sum256 env) (hashKey sourceLanguage targetLanguage text);
         (response, w') =
           GetItem client w ctx (env_translateTableName env)
             [''hash'' \<mapsto> AttributeValueMemberS hash]
     in case response of
          Inl e \<Rightarrow> (Returns (zeroCacheItem, False, Some e), w')
        | Inr None \<Rightarrow> (Returns (zeroCacheItem, False, None), w')
        | Inr (Some item) \<Rightarrow>
            (case cacheItemOf item of
               Panics p \<Rightarrow> (Panics p, w')
             | Returns cacheItem \<Rightarrow> (Returns (cacheItem, True, None), w')))"

text \<open>
  \<^verbatim>\<open>
  func translateLanguage(ctx, translateClient, text, sourceLanguage, targetLanguage string) (TranslateResponse, error) {
      input := &translate.TranslateTextInput{
          SourceLanguageCode: aws.String(sourceLanguage),
          TargetLanguageCode: aws.String(targetLanguage),
          Text:               aws.String(text),
      }
      output, err := translateClient.TranslateText(ctx, input)
      if err != nil {
          return TranslateResponse{}, err
      }
      return TranslateResponse{TranslatedText: *output.TranslatedText}, nil
  }
  \<close>
\<close>

definition translateLanguage ::
  "'w TranslateClient \<Rightarrow> 'w \<Rightarrow> bool \<Rightarrow> string \<Rightarrow> string \<Rightarrow> string \<Rightarrow>
   (TranslateResponse \<times> error option) outcome \<times> 'w" where
  "translateLanguage client w ctx text sourceLanguage targetLanguage =
    (let (output, w') = TranslateText client w ctx sourceLanguage targetLanguage text
     in case output of
          Inl e \<Rightarrow> (Returns (zeroTranslateResponse, Some e), w')
        | Inr None \<Rightarrow> (Panics NilPointerDereference, w')
        | Inr (Some t) \<Rightarrow>
            (Returns (\<lparr>TranslateResponse.TranslatedText = t, DetectedLanguage = []\<rparr>, None),
             w'))"

text \<open>
  \<^verbatim>\<open>
  func cacheTranslatedText(ctx, dynamoClient, item CacheItem) error {
      _, err := dynamoClient.PutItem(ctx, &dynamodb.PutItemInput{
          TableName: aws.String(translateTableName),
          Item: map[string]types.AttributeValue{
              "hash":            &types.AttributeValueMemberS{Value: item.Hash},
              "translated_text": &types.AttributeValueMemberS{Value: item.TranslatedText},
              "source_text":     &types.AttributeValueMemberS{Value: item.SourceText},
              "source_language": &types.AttributeValueMemberS{Value: item.SourceLanguage},
              "target_language": &types.AttributeValueMemberS{Value: item.TargetLanguage},
          },
      })
      return err
  }
  \<close>
\<close>

definition cacheTranslatedText ::
  "env \<Rightarrow> 'w DynamoDBClient \<Rightarrow> 'w \<Rightarrow> bool \<Rightarrow> CacheItem \<Rightarrow> error option \<times> 'w" where
  "cacheTranslatedText env client w ctx item =
    PutItem client w ctx (env_translateTableName env)
      [''hash'' \<mapsto> AttributeValueMemberS (Hash item),
       ''translated_text'' \<mapsto> AttributeValueMemberS (CacheItem.TranslatedText item),
       ''source_text'' \<mapsto> AttributeValueMemberS (SourceText item),
       ''source_language'' \<mapsto> AttributeValueMemberS (CacheItem.SourceLanguage item),
       ''target_language'' \<mapsto> AttributeValueMemberS (CacheItem.TargetLanguage item)]"

text \<open>
  \<^verbatim>\<open>
  func getSupportedLanguages(ctx, translateClient) ([]string, error) {
      out, err := translateClient.ListLanguages(ctx, &translate.ListLanguagesInput{})
      if err != nil {
          return nil, err
      }
      if out.Languages == nil {
          return nil, fmt.Errorf("no languages returned by AWS Translate")
      }
      languages := make([]string, len(out.Languages))
      for i, lang := range out.Languages {
          languages[i] = *lang.LanguageCode
      }
      return languages, nil
  }

  func doesTargetLanguageExist(ctx, translateClient, targetLanguage string) (bool, error) {
      languages, err := getSupportedLanguages(ctx, translateClient)
      if err != nil {
          return false, err
      }
      return slices.Contains(languages, targetLanguage), nil
  }
  \<close>
\<close>

definition getSupportedLanguages ::
  "'w TranslateClient \<Rightarrow> 'w \<Rightarrow> (string list \<times> error option) outcome \<times> 'w" where
  "getSupportedLanguages client w =
    (let (out, w') = ListLanguages client w
     in case out of
          Inl e \<Rightarrow> (Returns ([], Some e), w')
        | Inr None \<Rightarrow>
            (Returns ([], Some (Errorf ''no languages returned by AWS Translate'')), w')
        | Inr (Some langs) \<Rightarrow>
            (if None \<in> set langs then (Panics NilPointerDereference, w')
             else (Returns (map the langs, None), w')))"

definition doesTargetLanguageExist ::
  "'w TranslateClient \<Rightarrow> 'w \<Rightarrow> string \<Rightarrow> (bool \<times> error option) outcome \<times> 'w" where
  "doesTargetLanguageExist client w targetLanguage =
    (let (r, w') = getSupportedLanguages client w
     in case r of
          Panics p \<Rightarrow> (Panics p, w')
        | Returns (languages, Some e) \<Rightarrow> (Returns (False, Some e), w')
        | Returns (languages, None) \<Rightarrow> (Returns (targetLanguage \<in> set languages, None), w'))"

text \<open>
  \<^verbatim>\<open>
  func unmarshalRequest(body []byte) (TranslateRequest, error) {
      var request TranslateRequest
      err := json.Unmarshal(body, &request)
      if err != nil {
          return request, fmt.Errorf("failed to unmarshal request body: %w", err)
      }
      return request, nil
  }

  func marshalResponse(response TranslateResponse) (string, error) {
      var buf bytes.Buffer
      encoder := json.NewEncoder(&buf)
      encoder.SetEscapeHTML(false)
      err := encoder.Encode(response)
      if err != nil {
          return "", fmt.Errorf("failed to marshal response: %w", err)
      }
      return strings.TrimSpace(buf.String()), nil
  }
  \<close>
  On a decoding error the caller does not read the request, which is returned here as
  the zero request.
\<close>

definition unmarshalRequest :: "env \<Rightarrow> string \<Rightarrow> TranslateRequest \<times> error option" where
  "unmarshalRequest env body =
    (case env_Unmarshal env body of
       Inl e \<Rightarrow>
         (\<lparr>TranslateRequest.SourceLanguage = [], TranslateRequest.TargetLanguage = [],
           Text = []\<rparr>,
          Some (Wrapf ''failed to unmarshal request body'' e))
     | Inr request \<Rightarrow> (request, None))"

definition marshalResponse :: "env \<Rightarrow> TranslateResponse \<Rightarrow> string \<times> error option" where
  "marshalResponse env response =
    (case env_Encode env response of
       Inl e \<Rightarrow> ([], Some (Wrapf ''failed to marshal response'' e))
     | Inr buf \<Rightarrow> (TrimSpace buf, None))"


section \<open>The error group of \<^verbatim>\<open>handle\<close>\<close>

text \<open>
  The calls that reach a collaborator or a library, in the order in which the program
  makes them, each with what it returned. The log is kept next to the state of the world;
  the program itself does not read it.
\<close>

datatype call =
    Called_getSupportedLanguages
  | Called_getTextFromHTML string
  | Called_splitSentences string
  | Called_shouldCacheBeUsed string string string "(CacheItem \<times> bool \<times> error option) outcome"
  | Called_translateLanguage string string string "(TranslateResponse \<times> error option) outcome"
  | Called_cacheTranslatedText CacheItem "error option"

text \<open>
  \<^verbatim>\<open>
  errGroup, groupCtx := errgroup.WithContext(ctx)
  errGroup.SetLimit(10) // Limit the number of concurrent translations
  translatedSentences := make([]string, len(sentences))
  for idx, tok := range sentences {
      index := idx // Capture the index for the goroutine
      token := tok // Capture the token for the goroutine
      errGroup.Go(func() error {
          cacheItem, useCache, err := shouldCacheBeUsed(groupCtx, h.dynamoClient,
              request.SourceLanguage, request.TargetLanguage, token)
          if err != nil {
              return fmt.Errorf("error checking cache for token %d: %w", index, err)
          }
          if useCache {
              translatedSentences[index] = cacheItem.TranslatedText
              return nil
          }
          translateResponse, err := translateLanguage(groupCtx, h.translateClient, token,
              request.SourceLanguage, request.TargetLanguage)
          if err != nil {
              return fmt.Errorf("error translating token %d: %w", index, err)
          }
          cacheItem = CacheItem{
              Hash: getHashFromText(fmt.Sprintf("%s-%s-%s", request.SourceLanguage,
                  request.TargetLanguage, token)),
              TranslatedText: translateResponse.TranslatedText,
              SourceText:     token,
              SourceLanguage: request.SourceLanguage,
              TargetLanguage: request.TargetLanguage,
          }
          err = cacheTranslatedText(groupCtx, h.dynamoClient, cacheItem)
          if err != nil {
              return fmt.Errorf("error caching translation for token %d: %w", index, err)
          }
          translatedSentences[index] = translateResponse.TranslatedText
          return nil
      })
  }
  if err := errGroup.Wait(); err != nil {
      log.Printf("Error during translation: %v", err)
      return events.APIGatewayProxyResponse{
          StatusCode: http.StatusInternalServerError,
          Body:       "Error during translation",
      }, nil
  }
  \<close>

  The goroutines run concurrently. Each makes up to three calls to the outside, and
  between two of them touches only its own variables and its own element of
  \<^verbatim>\<open>translatedSentences\<close>; so an execution is modelled as an interleaving of steps, one
  step being one outside call together with the local code that follows it. A goroutine
  is at its cache lookup, at its translation, at its cache store (holding the translation
  it got), or it has returned.
\<close>

datatype goroutine =
  AtCacheLookup | AtTranslate | AtCacheStore TranslateResponse | Returned "error option"

fun returned :: "goroutine \<Rightarrow> bool" where
  "returned (Returned e) = True"
| "returned _ = False"

text \<open>
  The state of the group: the world and the log of calls, the slice
  \<^verbatim>\<open>translatedSentences\<close>, the goroutines (one per sentence; those with an index below
  \<open>spawned\<close> have been started by \<^verbatim>\<open>errGroup.Go\<close>), the first error a goroutine returned
  (the field \<^verbatim>\<open>err\<close> of the group, set once; the group's context is cancelled from then
  on), and the panic that ended the program, if any.
\<close>

record 'w group =
  world :: 'w
  calls :: "call list"
  translatedSentences :: "string list"
  goroutines :: "goroutine list"
  spawned :: nat
  first_err :: "error option"
  panicked :: "panic option"

definition initial_group :: "'w \<Rightarrow> string list \<Rightarrow> 'w group" where
  "initial_group w sentences =
    \<lparr>world = w, calls = [],
     translatedSentences = replicate (length sentences) [],
     goroutines = replicate (length sentences) AtCacheLookup,
     spawned = 0, first_err = None, panicked = None\<rparr>"

text \<open>A goroutine returns: the group keeps the first error that is not \<^verbatim>\<open>nil\<close>.\<close>

definition finish :: "nat \<Rightarrow> error option \<Rightarrow> 'w group \<Rightarrow> 'w group" where
  "finish index e g =
    g\<lparr>goroutines := (goroutines g)[index := Returned e],
      first_err := (case first_err g of None \<Rightarrow> e | Some e0 \<Rightarrow> Some e0)\<rparr>"

definition goroutine_step ::
  "env \<Rightarrow> 'w handler \<Rightarrow> TranslateRequest \<Rightarrow> string list \<Rightarrow> nat \<Rightarrow> 'w group \<Rightarrow> 'w group" where
  "goroutine_step env h request sentences index g =
    (let token = sentences ! index;
         src = TranslateRequest.SourceLanguage request;
         tgt = TranslateRequest.TargetLanguage request;
         ctx = (first_err g \<noteq> None)
     in case goroutines g ! index of
          AtCacheLookup \<Rightarrow>
            (let (r, w') = shouldCacheBeUsed env (dynamoClient h) (world g) ctx src tgt token;
                 g' = g\<lparr>world := w',
                        calls := calls g @ [Called_shouldCacheBeUsed src tgt token r]\<rparr>
             in case r of
                  Panics p \<Rightarrow> g'\<lparr>panicked := Some p\<rparr>
                | Returns (cacheItem, useCache, Some e) \<Rightarrow>
                    finish index
                      (Some (Wrapf (''error checking cache for token '' @ Itoa index) e)) g'
                | Returns (cacheItem, useCache, None) \<Rightarrow>
                    if useCache then
                      finish index None
                        (g'\<lparr>translatedSentences :=
                             (translatedSentences g')
                               [index := CacheItem.TranslatedText cacheItem]\<rparr>)
                    else g'\<lparr>goroutines := (goroutines g')[index := AtTranslate]\<rparr>)
        | AtTranslate \<Rightarrow>
            (let (r, w') = translateLanguage (translateClient h) (world g) ctx token src tgt;
                 g' = g\<lparr>world := w',
                        calls := calls g @ [Called_translateLanguage token src tgt r]\<rparr>
             in case r of
                  Panics p \<Rightarrow> g'\<lparr>panicked := Some p\<rparr>
                | Returns (translateResponse, Some e) \<Rightarrow>
                    finish index
                      (Some (Wrapf (''error translating token '' @ Itoa index) e)) g'
                | Returns (translateResponse, None) \<Rightarrow>
                    g'\<lparr>goroutines := (goroutines g')[index := AtCacheStore translateResponse]\<rparr>)
        | AtCacheStore translateResponse \<Rightarrow>
            (let cacheItem =
                   \<lparr>Hash = getHashFromText (env_Sum256 env) (hashKey src tgt token),
                    TranslatedText = TranslateResponse.TranslatedText translateResponse,
                    SourceText = token, SourceLanguage = src, TargetLanguage = tgt\<rparr>;
                 (e, w') = cacheTranslatedText env (dynamoClient h) (world g) ctx cacheItem;
                 g' = g\<lparr>world := w',
                        calls := calls g @ [Called_cacheTranslatedText cacheItem e]\<rparr>
             in case e of
                  Some e' \<Rightarrow>
                    finish index
                      (Some (Wrapf (''error caching translation for token '' @ Itoa index) e'))
                      g'
                | None \<Rightarrow>
                    finish index None
                      (g'\<lparr>translatedSentences :=
                           (translatedSentences g')
                             [index := TranslateResponse.TranslatedText translateResponse]\<rparr>))
        | Returned e \<Rightarrow> g)"

text \<open>
  The number of goroutines started and not yet returned. \<^verbatim>\<open>errGroup.Go\<close> starts the
  next goroutine only while fewer than 10 are running (\<^verbatim>\<open>SetLimit(10)\<close>), and the loop
  starts them in the order of the sentences.
\<close>

definition running :: "'w group \<Rightarrow> nat" where
  "running g = length (filter (\<lambda>r. \<not> returned r) (take (spawned g) (goroutines g)))"

datatype actor = MainLoop | Goroutine nat

definition step ::
  "env \<Rightarrow> 'w handler \<Rightarrow> TranslateRequest \<Rightarrow> string list \<Rightarrow> actor \<Rightarrow> 'w group \<Rightarrow> 'w group" where
  "step env h request sentences a g =
    (if panicked g \<noteq> None then g
     else case a of
            MainLoop \<Rightarrow>
              if spawned g < length sentences \<and> running g < 10
              then g\<lparr>spawned := Suc (spawned g)\<rparr> else g
          | Goroutine index \<Rightarrow>
              if index < spawned g then goroutine_step env h request sentences index g
              else g)"

text \<open>A schedule says who takes the next step; a step that is not enabled changes
  nothing.\<close>

fun run ::
  "env \<Rightarrow> 'w handler \<Rightarrow> TranslateRequest \<Rightarrow> string list \<Rightarrow> actor list \<Rightarrow> 'w group \<Rightarrow> 'w group" where
  "run env h request sentences [] g = g"
| "run env h request sentences (a # sched) g =
     run env h request sentences sched (step env h request sentences a g)"

text \<open>\<^verbatim>\<open>errGroup.Wait()\<close> returns once the loop has started every goroutine and every
  goroutine has returned.\<close>

definition waited :: "'w group \<Rightarrow> bool" where
  "waited g = (spawned g = length (goroutines g) \<and> list_all returned (goroutines g))"

definition StatusOK :: int where "StatusOK = 200"
definition StatusBadRequest :: int where "StatusBadRequest = 400"
definition StatusUnprocessableEntity :: int where "StatusUnprocessableEntity = 422"
definition StatusInternalServerError :: int where "StatusInternalServerError = 500"

text \<open>
  Lines 174 to 225 of \<^verbatim>\<open>handle\<close>, under a schedule: the program panics, or
  \<^verbatim>\<open>Wait\<close> does not return under this schedule (\<open>None\<close>), or the group failed and
  \<^verbatim>\<open>handle\<close> returns its error response, or \<^verbatim>\<open>handle\<close> goes on with
  \<^verbatim>\<open>translatedSentences\<close>. The result comes with the world and the calls made.
\<close>

definition translateSentences ::
  "env \<Rightarrow> 'w handler \<Rightarrow> TranslateRequest \<Rightarrow> string list \<Rightarrow> actor list \<Rightarrow> 'w \<Rightarrow>
   ((APIGatewayProxyResponse + string list) outcome \<times> 'w \<times> call list) option" where
  "translateSentences env h request sentences sched w =
    (let g = run env h request sentences sched (initial_group w sentences)
     in case panicked g of
          Some p \<Rightarrow> Some (Panics p, world g, calls g)
        | None \<Rightarrow>
            if \<not> waited g then None
            else case first_err g of
                   Some e \<Rightarrow>
                     Some (Returns (Inl \<lparr>StatusCode = StatusInternalServerError,
                                         Body = ''Error during translation''\<rparr>),
                           world g, calls g)
                 | None \<Rightarrow> Some (Returns (Inr (translatedSentences g)), world g, calls g))"

section \<open>The handler\<close>

text \<open>
  Lines 153 to 172 of \<^verbatim>\<open>handle\<close>: the tokens, the sentences and the counts of the
  request's text.
  \<^verbatim>\<open>
  var htmlTokens []html.Token
  var sentences []string
  var wordCounts []int
  htmlContent := isHTML(request.Text)
  if htmlContent {
      var err error
      htmlTokens, sentences, wordCounts, err = getTextFromHTML(request.Text)
      if err != nil {
          return events.APIGatewayProxyResponse{StatusCode: http.StatusInternalServerError,
              Body: "Error processing HTML content"}, nil
      }
  } else {
      sentences = splitSentences(request.Text)
  }
  \<close>
\<close>

definition extractSentences ::
  "env \<Rightarrow> TranslateRequest \<Rightarrow> (error + Token list \<times> string list \<times> int list) option" where
  "extractSentences env request =
    (if isHTML (Text request) then
       getTextFromHTML (env_ToValidUTF8 env) (env_NewTokenizer env) (env_Segment env)
         (Text request)
     else Some (Inr ([], splitSentences (env_Segment env) (Text request), [])))"

text \<open>
  The rest of \<^verbatim>\<open>handle\<close> from line 153 on, after the target language has been found
  among the supported ones:
  \<^verbatim>\<open>
  translatedText := ""
  if htmlContent {
      translatedText = reconstructHTML(htmlTokens, translatedSentences, wordCounts)
  } else {
      translatedText = reconstructPlainText(translatedSentences)
  }
  response := TranslateResponse{TranslatedText: translatedText}
  responseBody, err := marshalResponse(response)
  if err != nil {
      return events.APIGatewayProxyResponse{StatusCode: http.StatusInternalServerError,
          Body: "Error marshalling response"}, nil
  }
  return events.APIGatewayProxyResponse{StatusCode: http.StatusOK, Body: responseBody}, nil
  \<close>
\<close>

definition translateRequest ::
  "env \<Rightarrow> 'w handler \<Rightarrow> actor list \<Rightarrow> 'w \<Rightarrow> call list \<Rightarrow> TranslateRequest \<Rightarrow>
   (APIGatewayProxyResponse outcome \<times> 'w \<times> call list) option" where
  "translateRequest env h sched w1 calls1 request =
    (let htmlContent = isHTML (Text request);
         calls2 = calls1 @
           [if htmlContent then Called_getTextFromHTML (Text request)
            else Called_splitSentences (Text request)]
     in case extractSentences env request of
          None \<Rightarrow> None
        | Some (Inl e) \<Rightarrow>
            Some (Returns \<lparr>StatusCode = StatusInternalServerError,
                           Body = ''Error processing HTML content''\<rparr>, w1, calls2)
        | Some (Inr (htmlTokens, sentences, wordCounts)) \<Rightarrow>
            (case translateSentences env h request sentences sched w1 of
               None \<Rightarrow> None
             | Some (Panics p, w2, calls3) \<Rightarrow> Some (Panics p, w2, calls2 @ calls3)
             | Some (Returns (Inl response), w2, calls3) \<Rightarrow>
                 Some (Returns response, w2, calls2 @ calls3)
             | Some (Returns (Inr translated), w2, calls3) \<Rightarrow>
                 (case (if htmlContent
                        then reconstructHTML (env_String env) htmlTokens translated wordCounts
                        else Returns (reconstructPlainText translated)) of
                    Panics p \<Rightarrow> Some (Panics p, w2, calls2 @ calls3)
                  | Returns translatedText \<Rightarrow>
                      (case marshalResponse env
                              \<lparr>TranslateResponse.TranslatedText = translatedText,
                               DetectedLanguage = []\<rparr> of
                         (responseBody, Some e) \<Rightarrow>
                           Some (Returns \<lparr>StatusCode = StatusInternalServerError,
                                          Body = ''Error marshalling response''\<rparr>,
                                 w2, calls2 @ calls3)
                       | (responseBody, None) \<Rightarrow>
                           Some (Returns \<lparr>StatusCode = StatusOK, Body = responseBody\<rparr>,
                                 w2, calls2 @ calls3)))))"

text \<open>
  \<^verbatim>\<open>handle\<close> from the validation of the decoded request on (lines 129 to 151, then
  the rest):
  \<^verbatim>\<open>
  err = validateRequest(request)
  if err != nil {
      return events.APIGatewayProxyResponse{StatusCode: http.StatusBadRequest,
          Body: err.Error()}, nil
  }
  supported, err := doesTargetLanguageExist(ctx, h.translateClient, request.TargetLanguage)
  if err != nil {
      return events.APIGatewayProxyResponse{StatusCode: http.StatusInternalServerError,
          Body: "Error checking supported languages"}, nil
  }
  if !supported {
      return events.APIGatewayProxyResponse{StatusCode: http.StatusUnprocessableEntity,
          Body: "Target language not supported"}, nil
  }
  \<close>
\<close>

definition handleRequest ::
  "env \<Rightarrow> 'w handler \<Rightarrow> actor list \<Rightarrow> 'w \<Rightarrow> TranslateRequest \<Rightarrow>
   (APIGatewayProxyResponse outcome \<times> 'w \<times> call list) option" where
  "handleRequest env h sched w request =
    (case validateRequest request of
       Some e \<Rightarrow> Some (Returns \<lparr>StatusCode = StatusBadRequest, Body = Error e\<rparr>, w, [])
     | None \<Rightarrow>
         (let (r, w1) =
                doesTargetLanguageExist (translateClient h) w
                  (TranslateRequest.TargetLanguage request);
              calls1 = [Called_getSupportedLanguages]
          in case r of
               Panics p \<Rightarrow> Some (Panics p, w1, calls1)
             | Returns (supported, Some e) \<Rightarrow>
                 Some (Returns \<lparr>StatusCode = StatusInternalServerError,
                                Body = ''Error checking supported languages''\<rparr>, w1, calls1)
             | Returns (supported, None) \<Rightarrow>
                 if \<not> supported then
                   Some (Returns \<lparr>StatusCode = StatusUnprocessableEntity,
                                  Body = ''Target language not supported''\<rparr>, w1, calls1)
                 else translateRequest env h sched w1 calls1 request))"

text \<open>
  \<^verbatim>\<open>
  func (h *handler) handle(ctx context.Context, event events.APIGatewayProxyRequest) (events.APIGatewayProxyResponse, error) {
      request, err := unmarshalRequest([]byte(event.Body))
      if err != nil {
          return events.APIGatewayProxyResponse{StatusCode: http.StatusBadRequest,
              Body: "Invalid request format"}, nil
      }
      ...
  \<close>
  The error that \<^verbatim>\<open>handle\<close> returns is always \<^verbatim>\<open>nil\<close>; the model returns the response.
\<close>

definition handle ::
  "env \<Rightarrow> 'w handler \<Rightarrow> actor list \<Rightarrow> 'w \<Rightarrow> string \<Rightarrow>
   (APIGatewayProxyResponse outcome \<times> 'w \<times> call list) option" where
  "handle env h sched w body =
    (case unmarshalRequest env body of
       (request, Some e) \<Rightarrow>
         Some (Returns \<lparr>StatusCode = StatusBadRequest, Body = ''Invalid request format''\<rparr>,
               w, [])
     | (request, None) \<Rightarrow> handleRequest env h sched w request)"


section \<open>Reading the log of calls\<close>

text \<open>A call of the cache lookup, of the translation or of the cache store that
  returned an error.\<close>

fun failed :: "call \<Rightarrow> bool" where
  "failed (Called_shouldCacheBeUsed src tgt text (Returns (cacheItem, useCache, e))) =
     (e \<noteq> None)"
| "failed (Called_translateLanguage text src tgt (Returns (response, e))) = (e \<noteq> None)"
| "failed (Called_cacheTranslatedText item e) = (e \<noteq> None)"
| "failed _ = False"












section \<open>Stand-ins for the libraries\<close>

text \<open>
  The theorems below hold for every segmenter, tokenizer and token printer. To apply them
  to concrete inputs, the following stand-ins give the answers of the libraries on the
  inputs of the repository's tests (\<^verbatim>\<open>html_test.go\<close>, \<^verbatim>\<open>TestSplitSentences\<close>), and
  nothing more.
\<close>

definition stubToValidUTF8 :: "string \<Rightarrow> string \<Rightarrow> string" where
  "stubToValidUTF8 s replacement = s"

definition stubSegment :: "string \<Rightarrow> string \<Rightarrow> string list" where
  "stubSegment lang text =
    (if text = [] then []
     else if text = ''Hello world. How are you?'' then [''Hello world.'', ''How are you?'']
     else [text])"

definition tagToken :: "TokenType \<Rightarrow> string \<Rightarrow> Token" where
  "tagToken t name = \<lparr>Type = t, DataAtom = 0, Data = name, Attr = []\<rparr>"

definition stubScan :: "TokenType \<Rightarrow> string \<Rightarrow> scan" where
  "stubScan t s =
    \<lparr>z_Next = t, z_Err = EOF, z_Text = (if t = TextToken then s else []),
     z_Token = tagToken t s\<rparr>"

definition stubTokenizer :: "string \<Rightarrow> scan list" where
  "stubTokenizer input =
    (if input = ''<p>Hello world. How are you?</p>'' then
       [stubScan StartTagToken ''p'', stubScan TextToken ''Hello world. How are you?'',
        stubScan EndTagToken ''p'', stubScan ErrorToken []]
     else if input = ''<div><p>Hello.</p> <p>How are you?</p></div>'' then
       [stubScan StartTagToken ''div'', stubScan StartTagToken ''p'',
        stubScan TextToken ''Hello.'', stubScan EndTagToken ''p'', stubScan TextToken '' '',
        stubScan StartTagToken ''p'', stubScan TextToken ''How are you?'',
        stubScan EndTagToken ''p'', stubScan EndTagToken ''div'', stubScan ErrorToken []]
     else [stubScan ErrorToken []])"

definition stubString :: "Token \<Rightarrow> string" where
  "stubString t =
    (case Type t of
       StartTagToken \<Rightarrow> ''<'' @ Data t @ ''>''
     | EndTagToken \<Rightarrow> ''</'' @ Data t @ ''>''
     | _ \<Rightarrow> [])"

text \<open>The byte strings of the translated sentences of the scenario: \<^verbatim>\<open>Hola mundo.\<close>
  and, in UTF-8, the Spanish for \<^verbatim>\<open>How are you?\<close>.\<close>

definition como_estas :: string where
  "como_estas =
     [CHR 0xC2, CHR 0xBF] @ ''C'' @ [CHR 0xC3, CHR 0xB3] @ ''mo est'' @
     [CHR 0xC3, CHR 0xA1] @ ''s?''"

text \<open>A stand-in for the hash function: the text cut or padded with zero bytes to 32
  bytes. It is injective on texts of at most 32 bytes that do not end in a zero byte,
  and is used only to apply the lemmas about the fingerprint to concrete keys.\<close>

lift_definition stubSum256 :: "string \<Rightarrow> digest" is
  "\<lambda>text. take 32 (text @ replicate 32 (CHR 0x00))"
  by simp

text \<open>
  Stand-ins for the clients, after the mocks of \<^verbatim>\<open>TestHandle\<close>: the world is the number
  of calls made so far; the cache never holds an item and accepts every store; the
  provider supports Spanish only and translates four texts; the JSON decoder rejects
  every body and the encoder writes the translated text as it is.
\<close>

definition stubDynamoDBClient :: "nat DynamoDBClient" where
  "stubDynamoDBClient =
    \<lparr>GetItem = (\<lambda>w ctx table key. (Inr None, Suc w)),
     PutItem = (\<lambda>w ctx table item. (None, Suc w))\<rparr>"

definition stubTranslateClient :: "nat TranslateClient" where
  "stubTranslateClient =
    \<lparr>TranslateText = (\<lambda>w ctx source target text.
        (if text = ''Hello world.'' then Inr (Some ''Hola mundo.'')
         else if text = ''How are you?'' then Inr (Some como_estas)
         else if text = ''Hello'' then Inr (Some ''Hola'')
         else if text = ''Hello.'' then Inr (Some ''Hola.'')
         else Inl (Errorf ''mock error''), Suc w)),
     ListLanguages = (\<lambda>w. (Inr (Some [Some ''es'']), Suc w))\<rparr>"

definition stubHandler :: "nat handler" where
  "stubHandler = \<lparr>dynamoClient = stubDynamoDBClient, translateClient = stubTranslateClient\<rparr>"

definition stubEnv :: env where
  "stubEnv =
    \<lparr>env_translateTableName = ''TranslateCache'', env_Sum256 = stubSum256,
     env_Segment = stubSegment, env_NewTokenizer = stubTokenizer,
     env_ToValidUTF8 = stubToValidUTF8, env_String = stubString,
     env_Unmarshal = (\<lambda>body. Inl (Errorf ''invalid request body'')),
     env_Encode = (\<lambda>response. Inr (TranslateResponse.TranslatedText response))\<rparr>"

text \<open>A request, its two sentences, and a schedule under which the second goroutine
  makes its calls before the first one.\<close>

definition stubRequest :: TranslateRequest where
  "stubRequest =
    \<lparr>TranslateRequest.SourceLanguage = ''en'', TranslateRequest.TargetLanguage = ''es'',
     Text = ''Hello world. How are you?''\<rparr>"

definition stubSchedule :: "actor list" where
  "stubSchedule =
    [MainLoop, MainLoop, Goroutine 1, Goroutine 0, Goroutine 1, Goroutine 1, Goroutine 0,
     Goroutine 0]"



section \<open>Properties of the string functions\<close>

lemma HasPrefix_iff: "HasPrefix s p \<longleftrightarrow> prefix p s"
  by (induction s p rule: HasPrefix.induct) auto

lemma Contains_iff: "Contains s sub \<longleftrightarrow> (\<exists>pre post. s = pre @ sub @ post)"
proof (induction s)
  case Nil
  then show ?case by auto
next
  case (Cons c s)
  have "(\<exists>pre post. c # s = pre @ sub @ post) \<longleftrightarrow>
        prefix sub (c # s) \<or> (\<exists>pre post. s = pre @ sub @ post)" (is "?L \<longleftrightarrow> ?R")
  proof
    assume ?L
    then obtain pre post where eq: "c # s = pre @ sub @ post" by blast
    show ?R
    proof (cases pre)
      case Nil
      with eq show ?thesis by (auto simp: prefix_def)
    next
      case (Cons a pre')
      with eq have "s = pre' @ sub @ post" by simp
      then show ?thesis by blast
    qed
  next
    assume ?R
    then show ?L
    proof
      assume "prefix sub (c # s)"
      then obtain post where "c # s = sub @ post" by (auto simp: prefix_def)
      then have "c # s = [] @ sub @ post" by simp
      then show ?L by blast
    next
      assume "\<exists>pre post. s = pre @ sub @ post"
      then obtain pre post where "s = pre @ sub @ post" by blast
      then have "c # s = (c # pre) @ sub @ post" by simp
      then show ?L by blast
    qed
  qed
  with Cons show ?case by (simp add: HasPrefix_iff)
qed

text \<open>
  C10. The classifier is an exact, case-sensitive substring test: \<open>isHTML text\<close> holds
  if and only if \<open>text\<close> contains one of the four byte strings \<^verbatim>\<open><html\<close>, \<^verbatim>\<open><p\<close>,
  \<^verbatim>\<open><div\<close>, \<^verbatim>\<open><span\<close>; the well-formed markup \<^verbatim>\<open><DIV>Hello</DIV>\<close>, whose
  tags are upper case, is classified as plain text.
\<close>

theorem isHTML_substring_test:
  "(isHTML text \<longleftrightarrow>
      (\<exists>pre post. text = pre @ ''<html'' @ post) \<or>
      (\<exists>pre post. text = pre @ ''<p'' @ post) \<or>
      (\<exists>pre post. text = pre @ ''<div'' @ post) \<or>
      (\<exists>pre post. text = pre @ ''<span'' @ post))
   \<and> \<not> isHTML ''<DIV>Hello</DIV>''"
proof
  show "isHTML text \<longleftrightarrow>
      (\<exists>pre post. text = pre @ ''<html'' @ post) \<or>
      (\<exists>pre post. text = pre @ ''<p'' @ post) \<or>
      (\<exists>pre post. text = pre @ ''<div'' @ post) \<or>
      (\<exists>pre post. text = pre @ ''<span'' @ post)"
    unfolding isHTML_def Contains_iff ..
  show "\<not> isHTML ''<DIV>Hello</DIV>''"
    by (simp add: isHTML_def)
qed


section \<open>Plain-text reassembly: what \<open>reconstructPlainText\<close> returns\<close>

lemma reconstructPlainText_loop_concat:
  "reconstructPlainText_loop sb xs = sb @ concat (map (\<lambda>s. s @ '' '') xs)"
  by (induction xs arbitrary: sb) auto

lemma concat_joinWithSpace:
  "xs \<noteq> [] \<Longrightarrow> concat (map (\<lambda>s. s @ '' '') xs) = joinWithSpace xs @ '' ''"
  by (induction xs rule: joinWithSpace.induct) auto

lemma trailingSpace_snoc_space: "trailingSpace (t @ '' '') = 1"
  by (simp add: trailingSpace_def asciiSpace_def)

lemma TrimRight_snoc_space: "TrimRight (t @ '' '') = TrimRight t"
  by (subst TrimRight.simps) (simp add: trailingSpace_snoc_space)

lemma space2_length: "take 2 s \<in> set space2 \<Longrightarrow> 2 \<le> length s"
  by (cases s; cases "tl s") (auto simp: space2_def)

lemma space3_length: "take 3 s \<in> set space3 \<Longrightarrow> 3 \<le> length s"
  by (cases s; cases "tl s"; cases "tl (tl s)") (auto simp: space3_def)

lemma leadingSpace_append:
  assumes "leadingSpace y \<noteq> 0"
  shows "leadingSpace (y @ z) = leadingSpace y"
proof -
  from assms have ne: "y \<noteq> []"
    by (auto simp: leadingSpace_def space2_def space3_def)
  show ?thesis
  proof (cases "asciiSpace (hd y)")
    case True
    with ne show ?thesis by (simp add: leadingSpace_def)
  next
    case False
    show ?thesis
    proof (cases "take 2 y \<in> set space2")
      case True
      then have "2 \<le> length y" by (rule space2_length)
      with True False ne show ?thesis by (simp add: leadingSpace_def)
    next
      case f2: False
      with False assms have t3: "take 3 y \<in> set space3"
        by (auto simp: leadingSpace_def split: if_splits)
      then have "3 \<le> length y" by (rule space3_length)
      with t3 f2 False ne show ?thesis by (simp add: leadingSpace_def)
    qed
  qed
qed

lemma leadingSpace_snoc_space:
  assumes "leadingSpace y = 0" "y \<noteq> []"
  shows "leadingSpace (y @ '' '') = 0"
proof -
  from assms have na: "\<not> asciiSpace (hd y)" and n2: "take 2 y \<notin> set space2"
    and n3: "take 3 y \<notin> set space3"
    by (auto simp: leadingSpace_def split: if_splits)
  have a2: "take 2 (y @ '' '') \<notin> set space2"
  proof (cases "2 \<le> length y")
    case True
    with n2 show ?thesis by simp
  next
    case False
    with assms(2) obtain a where "y = [a]" by (cases y; cases "tl y") auto
    then show ?thesis by (simp add: space2_def)
  qed
  have a3: "take 3 (y @ '' '') \<notin> set space3"
  proof (cases "3 \<le> length y")
    case True
    with n3 show ?thesis by simp
  next
    case False
    with assms(2) consider a where "y = [a]" | a b where "y = [a, b]"
      by (cases y; cases "tl y"; cases "tl (tl y)") auto
    then show ?thesis by cases (simp_all add: space3_def)
  qed
  from na a2 a3 assms(2) show ?thesis by (simp add: leadingSpace_def)
qed

lemma TrimLeft_snoc_space:
  "TrimLeft (y @ '' '') = (if TrimLeft y = [] then [] else TrimLeft y @ '' '')"
proof (induction y rule: TrimLeft.induct)
  case (1 s)
  show ?case
  proof (cases "leadingSpace s = 0")
    case True
    then have ts: "TrimLeft s = s" by (simp add: TrimLeft.simps)
    show ?thesis
    proof (cases "s = []")
      case True
      have "leadingSpace '' '' = 1" by (simp add: leadingSpace_def asciiSpace_def)
      then have "TrimLeft '' '' = TrimLeft []" by (subst TrimLeft.simps) simp
      also have "\<dots> = []"
        by (subst TrimLeft.simps) (simp add: leadingSpace_def space2_def space3_def)
      finally show ?thesis using True ts by simp
    next
      case False
      with True have "leadingSpace (s @ '' '') = 0" by (rule leadingSpace_snoc_space)
      then have "TrimLeft (s @ '' '') = s @ '' ''" by (simp add: TrimLeft.simps)
      with ts False show ?thesis by simp
    qed
  next
    case False
    then have w: "leadingSpace (s @ '' '') = leadingSpace s" by (rule leadingSpace_append)
    have le: "leadingSpace s \<le> length s" by (rule leadingSpace_le)
    have "TrimLeft (s @ '' '') = TrimLeft (drop (leadingSpace s) s @ '' '')"
      using False w le by (subst TrimLeft.simps) simp
    moreover have "TrimLeft s = TrimLeft (drop (leadingSpace s) s)"
      using False by (subst TrimLeft.simps) simp
    ultimately show ?thesis using 1 False by simp
  qed
qed

lemma TrimRight_Nil: "TrimRight [] = []"
  by (subst TrimRight.simps) (simp add: trailingSpace_def)

lemma TrimSpace_snoc_space: "TrimSpace (y @ '' '') = TrimSpace y"
  by (simp add: TrimSpace_def TrimLeft_snoc_space TrimRight_snoc_space TrimRight_Nil)

lemma TrimLeft_suffix: "\<exists>pre. s = pre @ TrimLeft s"
proof (induction s rule: TrimLeft.induct)
  case (1 s)
  show ?case
  proof (cases "leadingSpace s = 0")
    case True
    then show ?thesis by (simp add: TrimLeft.simps)
  next
    case False
    with 1 obtain pre where "drop (leadingSpace s) s = pre @ TrimLeft (drop (leadingSpace s) s)"
      by blast
    moreover have "TrimLeft s = TrimLeft (drop (leadingSpace s) s)"
      using False by (subst TrimLeft.simps) simp
    ultimately have "s = (take (leadingSpace s) s @ pre) @ TrimLeft s"
      by (metis append.assoc append_take_drop_id)
    then show ?thesis by blast
  qed
qed

lemma TrimRight_prefix: "\<exists>post. s = TrimRight s @ post"
proof (induction s rule: TrimRight.induct)
  case (1 s)
  show ?case
  proof (cases "trailingSpace s = 0")
    case True
    then show ?thesis by (simp add: TrimRight.simps)
  next
    case False
    let ?t = "take (length s - trailingSpace s) s"
    from False 1 obtain post where "?t = TrimRight ?t @ post" by blast
    moreover have "TrimRight s = TrimRight ?t"
      using False by (subst TrimRight.simps) simp
    ultimately have "s = TrimRight s @ (post @ drop (length s - trailingSpace s) s)"
      by (metis append.assoc append_take_drop_id)
    then show ?thesis by blast
  qed
qed

lemma TrimSpace_part: "\<exists>pre post. s = pre @ TrimSpace s @ post"
proof -
  obtain pre where p: "s = pre @ TrimLeft s" using TrimLeft_suffix by blast
  obtain post where q: "TrimLeft s = TrimRight (TrimLeft s) @ post"
    using TrimRight_prefix by blast
  from p q have "s = pre @ TrimSpace s @ post" by (simp add: TrimSpace_def)
  then show ?thesis by blast
qed

lemma TrimSpace_id:
  "leadingSpace s = 0 \<Longrightarrow> trailingSpace s = 0 \<Longrightarrow> TrimSpace s = s"
  by (simp add: TrimSpace_def TrimLeft.simps TrimRight.simps)

lemma reconstructPlainText_TrimSpace_join:
  "reconstructPlainText xs = TrimSpace (joinWithSpace xs)"
proof (cases "xs = []")
  case True
  then show ?thesis by (simp add: reconstructPlainText_def)
next
  case False
  then show ?thesis
    by (simp add: reconstructPlainText_def reconstructPlainText_loop_concat
        concat_joinWithSpace TrimSpace_snoc_space)
qed

text \<open>
  C7, as the claim states it, fails: for the single sentence \<^verbatim>\<open>" Hola"\<close> the join with
  a single space is \<^verbatim>\<open>" Hola"\<close>, but \<open>reconstructPlainText\<close> returns \<^verbatim>\<open>"Hola"\<close>,
  because \<^verbatim>\<open>strings.TrimSpace\<close> also removes the leading white space of the first
  sentence (and the trailing white space of the last one).
\<close>

theorem reconstructPlainText_strips_leading_space:
  "reconstructPlainText ['' Hola''] = ''Hola'' \<and> joinWithSpace ['' Hola''] = '' Hola'' \<and>
   reconstructPlainText ['' Hola''] \<noteq> joinWithSpace ['' Hola'']"
  by code_simp

text \<open>
  C7, amended. For every list of translated sentences, \<open>reconstructPlainText\<close> returns the
  sentences joined with a single space, with all leading and all trailing white space of
  the joined string removed (\<^verbatim>\<open>strings.TrimSpace\<close>), not only the trailing separator.
  The result is a contiguous part of the joined string, so white space inside it is
  preserved, and it is the joined string itself whenever that neither starts nor ends
  with a white-space character.
\<close>

theorem reconstructPlainText_join:
  "reconstructPlainText xs = TrimSpace (joinWithSpace xs) \<and>
   (\<exists>pre post. joinWithSpace xs = pre @ reconstructPlainText xs @ post) \<and>
   (leadingSpace (joinWithSpace xs) = 0 \<longrightarrow> trailingSpace (joinWithSpace xs) = 0 \<longrightarrow>
      reconstructPlainText xs = joinWithSpace xs)"
  using TrimSpace_part [of "joinWithSpace xs"] TrimSpace_id [of "joinWithSpace xs"]
  by (simp add: reconstructPlainText_TrimSpace_join)

theorem reconstructPlainText_join_witness:
  "leadingSpace (joinWithSpace [''Hola mundo.'', ''Adios.'']) = 0 \<and>
   trailingSpace (joinWithSpace [''Hola mundo.'', ''Adios.'']) = 0 \<and>
   reconstructPlainText [''Hola mundo.'', ''Adios.''] = ''Hola mundo. Adios.''"
proof -
  have l: "leadingSpace (joinWithSpace [''Hola mundo.'', ''Adios.'']) = 0" by code_simp
  have t: "trailingSpace (joinWithSpace [''Hola mundo.'', ''Adios.'']) = 0" by code_simp
  have "reconstructPlainText [''Hola mundo.'', ''Adios.''] =
        joinWithSpace [''Hola mundo.'', ''Adios.'']"
    using reconstructPlainText_join [of "[''Hola mundo.'', ''Adios.'']"] l t by blast
  with l t show ?thesis by simp
qed


section \<open>Markup tokenizer: the node sentence counts\<close>

lemma getTextFromHTML_loop_sum:
  "getTextFromHTML_loop Segment zs tokens texts counts = Some (Inr (tokens', texts', counts'))
   \<Longrightarrow> sum_list counts' - int (length texts') = sum_list counts - int (length texts)"
  by (induction Segment zs tokens texts counts rule: getTextFromHTML_loop.induct)
     (simp_all split: TokenType.splits if_splits add: Let_def)

lemma getTextFromHTML_loop_length:
  "getTextFromHTML_loop Segment zs tokens texts counts = Some (Inr (tokens', texts', counts'))
   \<Longrightarrow> length counts' = length counts +
     length (filter (\<lambda>z. z_Next z = TextToken \<and> TrimSpace (z_Text z) \<noteq> [])
       (takeWhile (\<lambda>z. z_Next z \<noteq> ErrorToken) zs))"
  by (induction Segment zs tokens texts counts rule: getTextFromHTML_loop.induct)
     (simp_all split: TokenType.splits if_splits add: Let_def)

lemma getTextFromHTML_loop_tokens:
  "getTextFromHTML_loop Segment zs tokens texts counts = Some (Inr (tokens', texts', counts'))
   \<Longrightarrow> tokens @ map z_Token (takeWhile (\<lambda>z. z_Next z \<noteq> ErrorToken) zs) = tokens'"
  by (induction Segment zs tokens texts counts rule: getTextFromHTML_loop.induct)
     (simp_all split: TokenType.splits if_splits add: Let_def)

text \<open>The loop returns exactly when the tokenizer reports an \<open>ErrorToken\<close>.\<close>

lemma getTextFromHTML_loop_returns:
  "(getTextFromHTML_loop Segment zs tokens texts counts \<noteq> None) =
   (\<exists>z \<in> set zs. z_Next z = ErrorToken)"
  by (induction Segment zs tokens texts counts rule: getTextFromHTML_loop.induct)
     (simp_all split: TokenType.splits add: Let_def)

text \<open>
  C2. Whenever \<open>getTextFromHTML\<close> succeeds, the sum of the returned counts is the length
  of the returned flat sentence list, and the number of counts is the number of text
  tokens scanned (before the end of input) whose trimmed text is not empty.
\<close>

theorem getTextFromHTML_counts:
  assumes "getTextFromHTML ToValidUTF8 NewTokenizer Segment input =
           Some (Inr (tokens, texts, counts))"
  shows "sum_list counts = int (length texts) \<and>
         length counts =
           length (filter (\<lambda>z. z_Next z = TextToken \<and> TrimSpace (z_Text z) \<noteq> [])
             (takeWhile (\<lambda>z. z_Next z \<noteq> ErrorToken)
               (NewTokenizer (replaceNonUTF8Characters ToValidUTF8 input))))"
  using getTextFromHTML_loop_sum [OF assms [unfolded getTextFromHTML_def]]
        getTextFromHTML_loop_length [OF assms [unfolded getTextFromHTML_def]]
  by simp

theorem getTextFromHTML_counts_witness:
  "getTextFromHTML stubToValidUTF8 stubTokenizer stubSegment
     ''<div><p>Hello.</p> <p>How are you?</p></div>'' =
     Some (Inr ([tagToken StartTagToken ''div'', tagToken StartTagToken ''p'',
                 tagToken TextToken ''Hello.'', tagToken EndTagToken ''p'',
                 tagToken TextToken '' '', tagToken StartTagToken ''p'',
                 tagToken TextToken ''How are you?'', tagToken EndTagToken ''p'',
                 tagToken EndTagToken ''div''],
                [''Hello.'', ''How are you?''], [1, 1])) \<and>
   sum_list [1, 1] = int (length [''Hello.'', ''How are you?'']) \<and>
   length [1, 1 :: int] =
     length (filter (\<lambda>z. z_Next z = TextToken \<and> TrimSpace (z_Text z) \<noteq> [])
       (takeWhile (\<lambda>z. z_Next z \<noteq> ErrorToken)
         (stubTokenizer (replaceNonUTF8Characters stubToValidUTF8
            ''<div><p>Hello.</p> <p>How are you?</p></div>''))))"
proof -
  have run: "getTextFromHTML stubToValidUTF8 stubTokenizer stubSegment
     ''<div><p>Hello.</p> <p>How are you?</p></div>'' =
     Some (Inr ([tagToken StartTagToken ''div'', tagToken StartTagToken ''p'',
                 tagToken TextToken ''Hello.'', tagToken EndTagToken ''p'',
                 tagToken TextToken '' '', tagToken StartTagToken ''p'',
                 tagToken TextToken ''How are you?'', tagToken EndTagToken ''p'',
                 tagToken EndTagToken ''div''],
                [''Hello.'', ''How are you?''], [1, 1]))"
    by code_simp
  show ?thesis by (rule conjI [OF run getTextFromHTML_counts [OF run]])
qed

section \<open>The paragraph scenario\<close>

text \<open>
  C3. For the input \<^verbatim>\<open><p>Hello world. How are you?</p>\<close>: the classifier answers
  markup. If the tokenizer scans it as a start tag \<open>p\<close>, one text token with the text
  \<^verbatim>\<open>Hello world. How are you?\<close>, an end tag \<open>p\<close> and the end of input, and the
  segmenter splits that text into \<^verbatim>\<open>Hello world.\<close> and \<^verbatim>\<open>How are you?\<close>, then
  \<open>getTextFromHTML\<close> returns these three tokens, these two sentences and the counts
  \<open>[2]\<close>; and if the two tags print as \<^verbatim>\<open><p>\<close> and \<^verbatim>\<open></p>\<close>, reconstruction with
  the two translated sentences returns \<^verbatim>\<open><p>\<close>, the two sentences with nothing
  between them, and \<^verbatim>\<open></p>\<close>.
\<close>

theorem paragraph_scenario:
  assumes "ToValidUTF8 ''<p>Hello world. How are you?</p>'' [] =
           ''<p>Hello world. How are you?</p>''"
    and "NewTokenizer ''<p>Hello world. How are you?</p>'' =
          [\<lparr>z_Next = StartTagToken, z_Err = e1, z_Text = t1, z_Token = start\<rparr>,
           \<lparr>z_Next = TextToken, z_Err = e2, z_Text = ''Hello world. How are you?'',
            z_Token = txt\<rparr>,
           \<lparr>z_Next = EndTagToken, z_Err = e3, z_Text = t3, z_Token = end\<rparr>,
           \<lparr>z_Next = ErrorToken, z_Err = EOF, z_Text = t4, z_Token = tok4\<rparr>]"
    and "Type start = StartTagToken" and "Data start = ''p''"
    and "Type txt = TextToken"
    and "Type end = EndTagToken" and "Data end = ''p''"
    and "Segment ''en'' ''Hello world. How are you?'' = [''Hello world.'', ''How are you?'']"
    and "String start = ''<p>''" and "String end = ''</p>''"
  shows "isHTML ''<p>Hello world. How are you?</p>'' \<and>
         getTextFromHTML ToValidUTF8 NewTokenizer Segment ''<p>Hello world. How are you?</p>'' =
           Some (Inr ([start, txt, end], [''Hello world.'', ''How are you?''], [2])) \<and>
         reconstructHTML String [start, txt, end] [''Hola mundo.'', como_estas] [2] =
           Returns (''<p>'' @ ''Hola mundo.'' @ como_estas @ ''</p>'')"
proof -
  have trim: "TrimSpace ''Hello world. How are you?'' = ''Hello world. How are you?''"
    by code_simp
  have c: "isHTML ''<p>Hello world. How are you?</p>''"
    by (simp add: isHTML_def)
  have g: "getTextFromHTML ToValidUTF8 NewTokenizer Segment ''<p>Hello world. How are you?</p>'' =
           Some (Inr ([start, txt, end], [''Hello world.'', ''How are you?''], [2]))"
    using assms(1,2,8)
    by (simp add: getTextFromHTML_def replaceNonUTF8Characters_def trim splitSentences_def)
  have r: "reconstructHTML String [start, txt, end] [''Hola mundo.'', como_estas] [2] =
           Returns (''<p>'' @ ''Hola mundo.'' @ como_estas @ ''</p>'')"
    using assms(3,5,6,9,10) by (simp add: reconstructHTML_def numeral_2_eq_2)
  from c g r show ?thesis by blast
qed

theorem paragraph_scenario_witness:
  "isHTML ''<p>Hello world. How are you?</p>'' \<and>
   getTextFromHTML stubToValidUTF8 stubTokenizer stubSegment ''<p>Hello world. How are you?</p>'' =
     Some (Inr ([tagToken StartTagToken ''p'', tagToken TextToken ''Hello world. How are you?'',
                 tagToken EndTagToken ''p''],
                [''Hello world.'', ''How are you?''], [2])) \<and>
   reconstructHTML stubString
     [tagToken StartTagToken ''p'', tagToken TextToken ''Hello world. How are you?'',
      tagToken EndTagToken ''p'']
     [''Hola mundo.'', como_estas] [2] =
     Returns (''<p>'' @ ''Hola mundo.'' @ como_estas @ ''</p>'')"
  by (rule paragraph_scenario [of stubToValidUTF8 stubTokenizer EOF "[]"
        "tagToken StartTagToken ''p''" EOF "tagToken TextToken ''Hello world. How are you?''"
        EOF "[]" "tagToken EndTagToken ''p''" "[]" "tagToken ErrorToken []" stubSegment
        stubString])
     (simp_all add: stubToValidUTF8_def stubTokenizer_def stubScan_def tagToken_def
        stubSegment_def stubString_def)


section \<open>Markup reconstruction on a white-space text node\<close>

text \<open>
  C1: the failing input. Markup such as \<^verbatim>\<open><p>Hi.</p>\<close> followed by a blank is scanned
  as a start tag, the text \<^verbatim>\<open>Hi.\<close>, an end tag and a text token that holds only the
  blank. \<open>getTextFromHTML\<close> keeps both text tokens but records a count for the first one
  only, because the trimmed text of the second is empty. \<open>reconstructHTML\<close> reads one
  count per text token, so on the tokens and the counts that \<open>getTextFromHTML\<close> returned
  it reads \<^verbatim>\<open>sentenceCounts[1]\<close> of a list of length one and panics, whatever the
  translated sentences are.
\<close>

theorem reconstructHTML_panics_after_blank_text:
  "getTextFromHTML_loop Segment
     [stubScan StartTagToken ''p'', stubScan TextToken ''Hi.'', stubScan EndTagToken ''p'',
      stubScan TextToken '' '', stubScan ErrorToken []] [] [] [] =
     Some (Inr ([tagToken StartTagToken ''p'', tagToken TextToken ''Hi.'',
                 tagToken EndTagToken ''p'', tagToken TextToken '' ''],
                Segment ''en'' ''Hi.'', [int (length (Segment ''en'' ''Hi.''))])) \<and>
   reconstructHTML String
     [tagToken StartTagToken ''p'', tagToken TextToken ''Hi.'', tagToken EndTagToken ''p'',
      tagToken TextToken '' '']
     translated [int (length (Segment ''en'' ''Hi.''))] =
     Panics (IndexOutOfRange 1 1)"
proof -
  have t1: "TrimSpace ''Hi.'' = ''Hi.''" by code_simp
  have t2: "TrimSpace '' '' = []" by code_simp
  show ?thesis
    by (simp add: stubScan_def tagToken_def t1 t2 splitSentences_def reconstructHTML_def
        Let_def split: prod.splits)
qed


section \<open>Cache fingerprint: length, alphabet and colliding keys\<close>

lemma EncodeToString_length: "length (EncodeToString src) = 2 * length src"
  by (induction src) auto

lemma hextable_nth_inj:
  "i < 16 \<Longrightarrow> j < 16 \<Longrightarrow> hextable ! i = hextable ! j \<Longrightarrow> i = j"
proof -
  have d: "distinct hextable" by (simp add: hextable_def)
  have l: "length hextable = 16" by (simp add: hextable_def)
  show "i < 16 \<Longrightarrow> j < 16 \<Longrightarrow> hextable ! i = hextable ! j \<Longrightarrow> i = j"
    using d l by (simp add: nth_eq_iff_index_eq)
qed

lemma of_char_lt_256: "(of_char c :: nat) < 256"
  by (rule of_char_mod_256 [where ?'a = nat, THEN subst]) simp

lemma nibble_lt: "(of_char c :: nat) div 16 < 16"
  using of_char_lt_256 [of c] by presburger

lemma byte_eqI:
  assumes "(of_char v :: nat) div 16 = of_char w div 16"
    and "(of_char v :: nat) mod 16 = of_char w mod 16"
  shows "v = w"
proof -
  have "(of_char v :: nat) = of_char w"
    using assms by (metis div_mult_mod_eq)
  then show ?thesis by simp
qed

lemma EncodeToString_inj: "EncodeToString a = EncodeToString b \<Longrightarrow> a = b"
proof (induction a arbitrary: b)
  case Nil
  then show ?case by (cases b) auto
next
  case (Cons v a)
  then obtain w b' where b: "b = w # b'" by (cases b) auto
  have v: "(of_char v :: nat) div 16 < 16" "(of_char v :: nat) mod 16 < 16"
    by (simp_all add: nibble_lt)
  have w: "(of_char w :: nat) div 16 < 16" "(of_char w :: nat) mod 16 < 16"
    by (simp_all add: nibble_lt)
  from Cons.prems b have
    e1: "hextable ! (of_char v div 16) = hextable ! (of_char w div 16)" and
    e2: "hextable ! (of_char v mod 16) = hextable ! (of_char w mod 16)" and
    e3: "EncodeToString a = EncodeToString b'"
    by simp_all
  have "v = w"
    by (rule byte_eqI [OF hextable_nth_inj [OF v(1) w(1) e1] hextable_nth_inj [OF v(2) w(2) e2]])
  moreover have "a = b'" by (rule Cons.IH [OF e3])
  ultimately show ?case using b by simp
qed

lemma EncodeToString_hex: "set (EncodeToString src) \<subseteq> set hextable"
proof (induction src)
  case Nil
  then show ?case by simp
next
  case (Cons v src)
  have l: "length hextable = 16" by (simp add: hextable_def)
  have "(of_char v :: nat) div 16 < 16" "(of_char v :: nat) mod 16 < 16"
    by (simp_all add: nibble_lt)
  with l have "hextable ! (of_char v div 16) \<in> set hextable"
    "hextable ! (of_char v mod 16) \<in> set hextable"
    by simp_all
  with Cons show ?case by simp
qed

lemma getHashFromText_length: "length (getHashFromText Sum256 text) = 64"
  using Rep_digest [of "Sum256 text"] by (simp add: getHashFromText_def EncodeToString_length)

lemma getHashFromText_eq_iff:
  "getHashFromText Sum256 x = getHashFromText Sum256 y \<longleftrightarrow> Sum256 x = Sum256 y"
  by (auto simp: getHashFromText_def Rep_digest_inject dest: EncodeToString_inj)

text \<open>
  What the fingerprint does guarantee. The fingerprint of a triple is a pure function of
  the triple and the hash: 64 characters of the hexadecimal alphabet. If the hash is free
  of collisions on a set \<open>K\<close> of keys, two triples whose keys are in \<open>K\<close> have the same
  fingerprint exactly when their keys are the same string; in particular, with the same
  pair of languages, two different sentences have different fingerprints.
\<close>

lemma fingerprint_of_key:
  "length (getHashFromText Sum256 (hashKey a b s)) = 64 \<and>
   set (getHashFromText Sum256 (hashKey a b s)) \<subseteq> set hextable \<and>
   (inj_on Sum256 K \<longrightarrow> hashKey a b s \<in> K \<longrightarrow> hashKey a' b' s' \<in> K \<longrightarrow>
      (getHashFromText Sum256 (hashKey a b s) = getHashFromText Sum256 (hashKey a' b' s'))
        = (hashKey a b s = hashKey a' b' s')) \<and>
   (inj_on Sum256 K \<longrightarrow> hashKey a b s \<in> K \<longrightarrow> hashKey a b s2 \<in> K \<longrightarrow> s \<noteq> s2 \<longrightarrow>
      getHashFromText Sum256 (hashKey a b s) \<noteq> getHashFromText Sum256 (hashKey a b s2))"
proof (intro conjI impI)
  show "length (getHashFromText Sum256 (hashKey a b s)) = 64"
    by (rule getHashFromText_length)
  show "set (getHashFromText Sum256 (hashKey a b s)) \<subseteq> set hextable"
    by (simp add: getHashFromText_def EncodeToString_hex)
next
  assume "inj_on Sum256 K" "hashKey a b s \<in> K" "hashKey a' b' s' \<in> K"
  then show "(getHashFromText Sum256 (hashKey a b s) = getHashFromText Sum256 (hashKey a' b' s'))
        = (hashKey a b s = hashKey a' b' s')"
    by (auto simp: getHashFromText_eq_iff dest: inj_onD)
next
  assume "inj_on Sum256 K" "hashKey a b s \<in> K" "hashKey a b s2 \<in> K" "s \<noteq> s2"
  moreover from \<open>s \<noteq> s2\<close> have "hashKey a b s \<noteq> hashKey a b s2"
    by (simp add: hashKey_def)
  ultimately show "getHashFromText Sum256 (hashKey a b s) \<noteq> getHashFromText Sum256 (hashKey a b s2)"
    by (auto simp: getHashFromText_eq_iff dest: inj_onD)
qed

lemma stubSum256_eq_iff:
  "stubSum256 x = stubSum256 y \<longleftrightarrow>
   take 32 (x @ replicate 32 (CHR 0x00)) = take 32 (y @ replicate 32 (CHR 0x00))"
  by (simp add: Rep_digest_inject [symmetric] stubSum256.rep_eq)

lemma fingerprint_of_key_example:
  "inj_on stubSum256 {hashKey ''en'' ''es'' ''Hello'', hashKey ''en'' ''es'' ''World''} \<and>
   ''Hello'' \<noteq> ''World'' \<and>
   length (getHashFromText stubSum256 (hashKey ''en'' ''es'' ''Hello'')) = 64 \<and>
   getHashFromText stubSum256 (hashKey ''en'' ''es'' ''Hello'') \<noteq>
   getHashFromText stubSum256 (hashKey ''en'' ''es'' ''World'')"
proof -
  have ne: "take 32 (hashKey ''en'' ''es'' ''Hello'' @ replicate 32 (CHR 0x00)) \<noteq>
            take 32 (hashKey ''en'' ''es'' ''World'' @ replicate 32 (CHR 0x00))"
    by code_simp
  have i: "inj_on stubSum256 {hashKey ''en'' ''es'' ''Hello'', hashKey ''en'' ''es'' ''World''}"
    using ne by (auto simp: inj_on_def stubSum256_eq_iff)
  have h: "''Hello'' \<noteq> ''World''" by simp
  have m1: "hashKey ''en'' ''es'' ''Hello'' \<in>
            {hashKey ''en'' ''es'' ''Hello'', hashKey ''en'' ''es'' ''World''}" by simp
  have m2: "hashKey ''en'' ''es'' ''World'' \<in>
            {hashKey ''en'' ''es'' ''Hello'', hashKey ''en'' ''es'' ''World''}" by simp
  show ?thesis
    using fingerprint_of_key [of stubSum256 "''en''" "''es''" "''Hello''"
        "{hashKey ''en'' ''es'' ''Hello'', hashKey ''en'' ''es'' ''World''}"
        "''en''" "''es''" "''World''" "''World''"] i h m1 m2
    by blast
qed

text \<open>
  C4: the failing input. The key that is hashed joins the source language, the target
  language and the sentence with \<^verbatim>\<open>-\<close>, and language codes and sentences may contain
  \<^verbatim>\<open>-\<close> themselves. The distinct triples \<^verbatim>\<open>("en", "fr", "CA-Bonjour.")\<close> and
  \<^verbatim>\<open>("en", "fr-CA", "Bonjour.")\<close> have the same key \<^verbatim>\<open>en-fr-CA-Bonjour.\<close>, so they have
  the same fingerprint under every hash function, a collision-free one included, and
  \<open>shouldCacheBeUsed\<close> makes the same lookup for both: whatever the cache holds for one
  triple is returned as the cached translation of the other. The field \<^verbatim>\<open>Hash\<close> of
  \<^verbatim>\<open>CacheItem\<close> is documented as the unique identifier of the cached item.
\<close>

theorem fingerprint_collision_on_hyphen:
  "(''en'', ''fr'', ''CA-Bonjour.'') \<noteq> (''en'', ''fr-CA'', ''Bonjour.'') \<and>
   hashKey ''en'' ''fr'' ''CA-Bonjour.'' = hashKey ''en'' ''fr-CA'' ''Bonjour.'' \<and>
   getHashFromText Sum256 (hashKey ''en'' ''fr'' ''CA-Bonjour.'') =
     getHashFromText Sum256 (hashKey ''en'' ''fr-CA'' ''Bonjour.'') \<and>
   shouldCacheBeUsed env client w ctx ''en'' ''fr'' ''CA-Bonjour.'' =
     shouldCacheBeUsed env client w ctx ''en'' ''fr-CA'' ''Bonjour.''"
  by (simp add: shouldCacheBeUsed_def hashKey_def)


section \<open>Segmentation does not depend on the languages\<close>

text \<open>
  C9. The sentence list that \<^verbatim>\<open>handle\<close> computes from a request (with the tokens and
  the counts) is the same whatever the request's source and target languages are: it is
  computed from the text alone, and \<open>splitSentences\<close> always asks for the segmenter of
  the language \<^verbatim>\<open>en\<close>.
\<close>

theorem segmentation_ignores_languages:
  "extractSentences env
     (request\<lparr>TranslateRequest.SourceLanguage := a, TranslateRequest.TargetLanguage := b\<rparr>) =
   extractSentences env request \<and>
   splitSentences Segment input = Segment ''en'' input"
  by (simp add: extractSentences_def splitSentences_def)

section \<open>The unsupported target language\<close>

lemmas status_defs = StatusOK_def StatusBadRequest_def StatusUnprocessableEntity_def
  StatusInternalServerError_def

lemma doesTargetLanguageExist_unsupported:
  assumes "ListLanguages client w = (Inr (Some langs), w1)"
    and "None \<notin> set langs"
    and "Some target \<notin> set langs"
  shows "doesTargetLanguageExist client w target = (Returns (False, None), w1)"
proof -
  from assms(2,3) have "target \<notin> set (map the langs)"
    by (induction langs) auto
  with assms(1,2) show ?thesis
    by (simp add: doesTargetLanguageExist_def getSupportedLanguages_def)
qed

lemma translateSentences_status:
  "translateSentences env h request sentences sched w = Some (Returns (Inl resp), w', cs) \<Longrightarrow>
   StatusCode resp = StatusInternalServerError"
  by (auto simp: translateSentences_def Let_def split: option.splits if_splits)

lemma translateRequest_status:
  assumes "translateRequest env h sched w1 calls1 request = Some (Returns resp, w', cs)"
  shows "StatusCode resp = StatusInternalServerError \<or> StatusCode resp = StatusOK"
  using assms translateSentences_status [of env h request _ sched w1 resp]
  by (auto simp: translateRequest_def Let_def
      split: option.splits sum.splits prod.splits outcome.splits if_splits)

lemma getSupportedLanguages_cases:
  "getSupportedLanguages client w = (Returns (languages, None), w1) \<Longrightarrow>
   \<exists>langs. ListLanguages client w = (Inr (Some langs), w1) \<and> None \<notin> set langs \<and>
           languages = map the langs"
  by (auto simp: getSupportedLanguages_def split: prod.splits sum.splits option.splits if_splits)

lemma doesTargetLanguageExist_False:
  assumes "doesTargetLanguageExist client w target = (Returns (False, None), w1)"
  shows "\<exists>langs. ListLanguages client w = (Inr (Some langs), w1) \<and> None \<notin> set langs \<and>
           Some target \<notin> set langs"
proof -
  from assms obtain languages where
    g: "getSupportedLanguages client w = (Returns (languages, None), w1)"
    and t: "target \<notin> set languages"
    by (auto simp: doesTargetLanguageExist_def split: prod.splits outcome.splits option.splits)
  from getSupportedLanguages_cases [OF g] obtain langs where
    l: "ListLanguages client w = (Inr (Some langs), w1)" "None \<notin> set langs"
       "languages = map the langs"
    by blast
  from l(2,3) t have "Some target \<notin> set langs" by force
  with l show ?thesis by blast
qed

text \<open>The status 422 is returned for no other reason.\<close>

lemma handleRequest_422:
  assumes "handleRequest env h sched w request = Some (Returns resp, w', cs)"
    and "StatusCode resp = StatusUnprocessableEntity"
  shows "validateRequest request = None \<and>
         (\<exists>langs. ListLanguages (translateClient h) w = (Inr (Some langs), w') \<and>
            None \<notin> set langs \<and> Some (TranslateRequest.TargetLanguage request) \<notin> set langs)"
proof (cases "validateRequest request")
  case (Some e)
  with assms show ?thesis by (auto simp: handleRequest_def status_defs)
next
  case None
  obtain r w1 where d: "doesTargetLanguageExist (translateClient h) w
      (TranslateRequest.TargetLanguage request) = (r, w1)"
    by (cases "doesTargetLanguageExist (translateClient h) w
      (TranslateRequest.TargetLanguage request)")
  show ?thesis
  proof (cases r)
    case (Panics p)
    with assms None d show ?thesis by (simp add: handleRequest_def)
  next
    case (Returns x)
    obtain supported e where x: "x = (supported, e)" by (cases x)
    show ?thesis
    proof (cases e)
      case (Some e')
      with assms None d Returns x show ?thesis by (auto simp: handleRequest_def status_defs)
    next
      case n: None
      show ?thesis
      proof (cases supported)
        case True
        with assms None d Returns x n have
          "translateRequest env h sched w1 [Called_getSupportedLanguages] request =
           Some (Returns resp, w', cs)"
          by (simp add: handleRequest_def)
        from translateRequest_status [OF this] assms(2) show ?thesis
          by (simp add: status_defs)
      next
        case False
        with assms None d Returns x n have "w' = w1" by (simp add: handleRequest_def)
        with doesTargetLanguageExist_False [of "translateClient h" w _ w1] d Returns x n
          False None
        show ?thesis by simp
      qed
    qed
  qed
qed

text \<open>
  C6. For a request that passes validation and whose target language is not among the
  language codes that the provider lists, \<^verbatim>\<open>handle\<close> returns the response 422
  \<^verbatim>\<open>Target language not supported\<close>, under every schedule and without waiting for
  anything: the log of calls holds the listing of the languages and nothing else (no
  tokenization, no segmentation, no cache lookup, no translation, no cache store), and
  the world is as the listing left it. No request gets the status 422 for another reason.
\<close>

theorem unsupported_target_language:
  assumes "validateRequest request = None"
    and "ListLanguages (translateClient h) w = (Inr (Some langs), w1)"
    and "None \<notin> set langs"
    and "Some (TranslateRequest.TargetLanguage request) \<notin> set langs"
  shows "handleRequest env h sched w request =
           Some (Returns \<lparr>StatusCode = StatusUnprocessableEntity,
                          Body = ''Target language not supported''\<rparr>,
                 w1, [Called_getSupportedLanguages]) \<and>
         (\<forall>sched' w0 request' resp w' cs.
            handleRequest env h sched' w0 request' = Some (Returns resp, w', cs) \<and>
            StatusCode resp = StatusUnprocessableEntity \<longrightarrow>
            validateRequest request' = None \<and>
            (\<exists>langs'. ListLanguages (translateClient h) w0 = (Inr (Some langs'), w') \<and>
               None \<notin> set langs' \<and>
               Some (TranslateRequest.TargetLanguage request') \<notin> set langs'))"
proof
  show "handleRequest env h sched w request =
           Some (Returns \<lparr>StatusCode = StatusUnprocessableEntity,
                          Body = ''Target language not supported''\<rparr>,
                 w1, [Called_getSupportedLanguages])"
    using assms(1) doesTargetLanguageExist_unsupported [OF assms(2,3,4)]
    by (simp add: handleRequest_def)
  show "\<forall>sched' w0 request' resp w' cs.
            handleRequest env h sched' w0 request' = Some (Returns resp, w', cs) \<and>
            StatusCode resp = StatusUnprocessableEntity \<longrightarrow>
            validateRequest request' = None \<and>
            (\<exists>langs'. ListLanguages (translateClient h) w0 = (Inr (Some langs'), w') \<and>
               None \<notin> set langs' \<and>
               Some (TranslateRequest.TargetLanguage request') \<notin> set langs')"
    using handleRequest_422 [of env h] by blast
qed

theorem unsupported_target_language_witness:
  "validateRequest
     \<lparr>TranslateRequest.SourceLanguage = ''en'', TranslateRequest.TargetLanguage = ''xx'',
      Text = ''Hello''\<rparr> = None \<and>
   ListLanguages (translateClient stubHandler) 0 = (Inr (Some [Some ''es'']), 1) \<and>
   handleRequest stubEnv stubHandler [MainLoop, Goroutine 0] 0
     \<lparr>TranslateRequest.SourceLanguage = ''en'', TranslateRequest.TargetLanguage = ''xx'',
      Text = ''Hello''\<rparr> =
     Some (Returns \<lparr>StatusCode = StatusUnprocessableEntity,
                    Body = ''Target language not supported''\<rparr>,
           1, [Called_getSupportedLanguages])"
proof -
  have v: "validateRequest
     \<lparr>TranslateRequest.SourceLanguage = ''en'', TranslateRequest.TargetLanguage = ''xx'',
      Text = ''Hello''\<rparr> = None"
    by (simp add: validateRequest_def)
  have l: "ListLanguages (translateClient stubHandler) 0 = (Inr (Some [Some ''es'']), 1)"
    by (simp add: stubHandler_def stubTranslateClient_def)
  have "handleRequest stubEnv stubHandler [MainLoop, Goroutine 0] 0
     \<lparr>TranslateRequest.SourceLanguage = ''en'', TranslateRequest.TargetLanguage = ''xx'',
      Text = ''Hello''\<rparr> =
     Some (Returns \<lparr>StatusCode = StatusUnprocessableEntity,
                    Body = ''Target language not supported''\<rparr>,
           1, [Called_getSupportedLanguages])"
    by (rule unsupported_target_language [OF v l, THEN conjunct1]) simp_all
  with v l show ?thesis by blast
qed

section \<open>The empty text\<close>

lemma step_no_sentences: "spawned g = 0 \<Longrightarrow> step env h request [] a g = g"
  by (cases a) (simp_all add: step_def)

lemma run_no_sentences: "spawned g = 0 \<Longrightarrow> run env h request [] sched g = g"
  by (induction sched) (simp_all add: step_no_sentences)

lemma translateSentences_no_sentences:
  "translateSentences env h request [] sched w = Some (Returns (Inr []), w, [])"
proof -
  have "run env h request [] sched (initial_group w []) = initial_group w []"
    by (rule run_no_sentences) (simp add: initial_group_def)
  then show ?thesis
    by (simp add: translateSentences_def initial_group_def waited_def)
qed

text \<open>
  C8, as the claim states it, fails: a request whose text is the empty string does not
  reach the classifier. \<open>validateRequest\<close> rejects it, and \<^verbatim>\<open>handle\<close> returns the
  response 400 \<^verbatim>\<open>text is required\<close>, not a translation that is the empty string.
\<close>

theorem empty_text_is_rejected:
  "handleRequest stubEnv stubHandler [] 0
     \<lparr>TranslateRequest.SourceLanguage = ''en'', TranslateRequest.TargetLanguage = ''es'',
      Text = []\<rparr> =
   Some (Returns \<lparr>StatusCode = 400, Body = ''text is required''\<rparr>, 0, [])"
  by (simp add: handleRequest_def validateRequest_def StatusBadRequest_def)

text \<open>
  C8, amended. A request whose text is the empty string is rejected by the validation:
  \<^verbatim>\<open>handle\<close> returns the response 400 with the message of the validation error
  (\<^verbatim>\<open>text is required\<close> when both languages are given), under every schedule, and
  makes no call at all: no provider call, no cache call, and the world is unchanged. The
  stages that the request does not reach behave on empty input as the scenario says: the
  classifier answers plain for the empty string, the orchestrator run with zero
  sentences returns the empty sequence without any call, under every schedule, and the
  plain-text reassembly of the empty sequence is the empty string.
\<close>

theorem empty_text_request:
  "(\<exists>e. validateRequest (request\<lparr>Text := []\<rparr>) = Some e \<and>
        handleRequest env h sched w (request\<lparr>Text := []\<rparr>) =
          Some (Returns \<lparr>StatusCode = StatusBadRequest, Body = Error e\<rparr>, w, [])) \<and>
   (TranslateRequest.SourceLanguage request \<noteq> [] \<longrightarrow>
    TranslateRequest.TargetLanguage request \<noteq> [] \<longrightarrow>
      handleRequest env h sched w (request\<lparr>Text := []\<rparr>) =
        Some (Returns \<lparr>StatusCode = StatusBadRequest, Body = ''text is required''\<rparr>, w, [])) \<and>
   \<not> isHTML [] \<and>
   translateSentences env h request [] sched w = Some (Returns (Inr []), w, []) \<and>
   reconstructPlainText [] = []"
proof (intro conjI impI)
  show "\<exists>e. validateRequest (request\<lparr>Text := []\<rparr>) = Some e \<and>
        handleRequest env h sched w (request\<lparr>Text := []\<rparr>) =
          Some (Returns \<lparr>StatusCode = StatusBadRequest, Body = Error e\<rparr>, w, [])"
    by (simp add: handleRequest_def validateRequest_def)
  show "\<not> isHTML []" by (simp add: isHTML_def)
  show "translateSentences env h request [] sched w = Some (Returns (Inr []), w, [])"
    by (rule translateSentences_no_sentences)
  show "reconstructPlainText [] = []" by code_simp
next
  assume "TranslateRequest.SourceLanguage request \<noteq> []"
    "TranslateRequest.TargetLanguage request \<noteq> []"
  then show "handleRequest env h sched w (request\<lparr>Text := []\<rparr>) =
        Some (Returns \<lparr>StatusCode = StatusBadRequest, Body = ''text is required''\<rparr>, w, [])"
    by (simp add: handleRequest_def validateRequest_def)
qed

theorem empty_text_request_witness:
  "TranslateRequest.SourceLanguage stubRequest \<noteq> [] \<and>
   TranslateRequest.TargetLanguage stubRequest \<noteq> [] \<and>
   handleRequest stubEnv stubHandler stubSchedule 0 (stubRequest\<lparr>Text := []\<rparr>) =
     Some (Returns \<lparr>StatusCode = StatusBadRequest, Body = ''text is required''\<rparr>, 0, [])"
proof -
  have s: "TranslateRequest.SourceLanguage stubRequest \<noteq> []"
    and t: "TranslateRequest.TargetLanguage stubRequest \<noteq> []"
    by (simp_all add: stubRequest_def)
  from empty_text_request [of stubRequest stubEnv stubHandler stubSchedule 0] s t
  show ?thesis by blast
qed


section \<open>The steps of a goroutine\<close>




















lemma step_panicked:
  "panicked g \<noteq> None \<Longrightarrow> step env h request sentences a g = g"
  by (simp add: step_def)

lemma run_panicked:
  "panicked g \<noteq> None \<Longrightarrow> run env h request sentences sched g = g"
  by (induction sched) (simp_all add: step_panicked)













section \<open>The orchestration: all or nothing, in the order of the input\<close>




end
